theory Spec2Isabelle
  imports Complex_Main
begin

section \<open>Tensors, errors and the framework operations used by the agent\<close>

text \<open>
  The agent of \<^verbatim>\<open>tf2rl/algos/sac_old_v1.py\<close> is embedded over the real numbers: a
  \<^verbatim>\<open>float32\<close> is a \<open>real\<close>, so casts between numeric types are the identity and
  rounding is outside the model. Infinities and NaN are absent from the reals; the
  regression target, whose terminal mask is a \<^verbatim>\<open>float32\<close> multiplication, is therefore
  embedded a second time, over \<^verbatim>\<open>float32\<close> values with overflow, infinities and NaN
  (section \<open>The regression target in float32\<close>). A tensor is its shape together with
  its entries in row-major order. Inside the training step every value is a rank-1
  tensor, written as the list of its entries.
\<close>

datatype tensor = Tensor (shape: "nat list") (flat: "real list")

datatype error =
    AssertionError
  | InvalidArgumentError
  | IndexError
  | AttributeError string
  | NotANumber

text \<open>Sequencing of fallible steps: the first exception raised ends the computation.\<close>

definition ebind :: "error + 'a \<Rightarrow> ('a \<Rightarrow> error + 'b) \<Rightarrow> error + 'b" where
  "ebind m f = (case m of Inl e \<Rightarrow> Inl e | Inr x \<Rightarrow> f x)"

text \<open>\<^verbatim>\<open>np.expand_dims(x, axis=0)\<close>.\<close>

definition expand_dims0 :: "tensor \<Rightarrow> tensor" where
  "expand_dims0 t = Tensor (1 # shape t) (flat t)"

text \<open>\<^verbatim>\<open>tf.expand_dims(x, axis=1)\<close>: a rank-0 tensor has no axis 1.\<close>

definition expand_dims1 :: "tensor \<Rightarrow> error + tensor" where
  "expand_dims1 t =
     (case shape t of
        [] \<Rightarrow> Inl InvalidArgumentError
      | b # rest \<Rightarrow> Inr (Tensor (b # 1 # rest) (flat t)))"

text \<open>\<^verbatim>\<open>x[0]\<close> on a numpy array: the first slice along axis 0.\<close>

definition index0 :: "tensor \<Rightarrow> error + tensor" where
  "index0 t =
     (case shape t of
        [] \<Rightarrow> Inl IndexError
      | n # rest \<Rightarrow>
          if n = 0 then Inl IndexError
          else Inr (Tensor rest (take (prod_list rest) (flat t))))"

text \<open>\<^verbatim>\<open>tf.squeeze(x, axis=1)\<close>: axis 1 must exist and have extent 1.\<close>

definition tf_squeeze_axis1 :: "tensor \<Rightarrow> error + tensor" where
  "tf_squeeze_axis1 t =
     (case shape t of
        b # d # rest \<Rightarrow>
          if d = 1 then Inr (Tensor (b # rest) (flat t)) else Inl InvalidArgumentError
      | _ \<Rightarrow> Inl InvalidArgumentError)"

text \<open>The rows of a rank-2 tensor.\<close>

definition rows :: "tensor \<Rightarrow> error + real list list" where
  "rows t =
     (case shape t of
        [b, d] \<Rightarrow> Inr (map (\<lambda>i. take d (drop (i * d) (flat t))) [0..<b])
      | _ \<Rightarrow> Inl InvalidArgumentError)"

text \<open>
  \<^verbatim>\<open>tf.concat((x, y), axis=1)\<close> for rank-2 arguments with the same number of rows; the
  result is kept as its list of rows. Arguments of another rank are reported as the
  framework's shape error.
\<close>

definition tf_concat_axis1 :: "tensor \<Rightarrow> tensor \<Rightarrow> error + real list list" where
  "tf_concat_axis1 x y =
     ebind (rows x) (\<lambda>rx.
     ebind (rows y) (\<lambda>ry.
       if length rx = length ry then Inr (map2 (@) rx ry)
       else Inl InvalidArgumentError))"

text \<open>
  An elementwise binary operation on two rank-1 tensors, with the framework's
  broadcasting: equal lengths pair up, a length-1 operand is repeated, anything else is
  a shape error.
\<close>

definition bcast :: "('a \<Rightarrow> 'a \<Rightarrow> 'a) \<Rightarrow> 'a list \<Rightarrow> 'a list \<Rightarrow> error + 'a list" where
  "bcast f xs ys =
     (if length xs = length ys then Inr (map2 f xs ys)
      else if length xs = 1 then Inr (map (f (hd xs)) ys)
      else if length ys = 1 then Inr (map (\<lambda>x. f x (hd ys)) xs)
      else Inl InvalidArgumentError)"

text \<open>
  \<^verbatim>\<open>tf.reduce_mean\<close>, \<^verbatim>\<open>tf.reduce_min\<close> and \<^verbatim>\<open>tf.reduce_max\<close> of a rank-1 tensor. On an
  empty tensor the framework returns NaN or an infinity and carries on; the reals have
  neither, so the model stops there with \<open>NotANumber\<close>.
\<close>

definition reduce_mean :: "real list \<Rightarrow> error + real" where
  "reduce_mean xs =
     (if xs = [] then Inl NotANumber else Inr (sum_list xs / real (length xs)))"

definition reduce_min :: "real list \<Rightarrow> error + real" where
  "reduce_min xs = (if xs = [] then Inl NotANumber else Inr (fold min (tl xs) (hd xs)))"

definition reduce_max :: "real list \<Rightarrow> error + real" where
  "reduce_max xs = (if xs = [] then Inl NotANumber else Inr (fold max (tl xs) (hd xs)))"

text \<open>\<^verbatim>\<open>np.ones_like(x)\<close>.\<close>

definition ones_like :: "tensor \<Rightarrow> tensor" where
  "ones_like t = Tensor (shape t) (replicate (length (flat t)) 1)"

text \<open>
  Automatic differentiation (\<^verbatim>\<open>tape.gradient(loss, variables)\<close>) is a parameter of the
  model: given the loss as a function of the variables' values and their current
  values, it returns one gradient per variable.
\<close>

type_synonym autodiff = "(real list list \<Rightarrow> error + real) \<Rightarrow> real list list \<Rightarrow> real list list"

text \<open>
  A Keras optimizer (here always Adam): its slot variables and its update rule, which
  maps the slots and the (gradient, variable) pairs to the variables' new values and the
  new slots.
\<close>

datatype optimizer =
  Optimizer
    (update_rule: "real list list \<Rightarrow> (real list \<times> real list) list \<Rightarrow> real list list \<times> real list list")
    (slots: "real list list")

definition apply_gradients :: "optimizer \<Rightarrow> (real list \<times> real list) list \<Rightarrow> real list list \<times> optimizer" where
  "apply_gradients opt grads_and_vars =
     (case update_rule opt (slots opt) grads_and_vars of
        (new_values, new_slots) \<Rightarrow> (new_values, Optimizer (update_rule opt) new_slots))"

text \<open>
  Modelled from the spec: \<^verbatim>\<open>update_target_variables\<close> of
  \<^verbatim>\<open>tf2rl.misc.target_update_ops\<close>, which is not among the sources. For every pair of
  corresponding parameter tensors, \<open>target \<leftarrow> tau * source + (1 - tau) * target\<close>; the
  result is the new value of the first argument.
\<close>

definition update_target_variables :: "real list list \<Rightarrow> real list list \<Rightarrow> real \<Rightarrow> real list list" where
  "update_target_variables target_variables source_variables tau' =
     map2 (\<lambda>t s. map2 (\<lambda>tv sv. tau' * sv + (1 - tau') * tv) t s)
       target_variables source_variables"

section \<open>The critic network\<close>

text \<open>
  \<^verbatim>\<open>class CriticQ\<close>. A Keras layer acts on the last axis, one row at a time, so a layer
  is a function of the model's variables and one feature row. \<open>base_layers\<close> are the
  \<^verbatim>\<open>Dense(relu)\<close> and \<^verbatim>\<open>LayerNormalization\<close> layers in order, \<open>out_layer\<close> is \<^verbatim>\<open>Dense(1)\<close>,
  whose single output per row is the row's value. \<open>net_weights\<close> is the model's
  \<^verbatim>\<open>weights\<close>, which for these layers is also its \<^verbatim>\<open>trainable_variables\<close>.
\<close>

record CriticQ =
  base_layers :: "(real list list \<Rightarrow> real list \<Rightarrow> real list) list"
  out_layer :: "real list list \<Rightarrow> real list \<Rightarrow> real"
  net_weights :: "real list list"

text \<open>Squeezing axis 1 of a list of rows: every row must have exactly one entry.\<close>

definition squeeze_rows :: "real list list \<Rightarrow> error + real list" where
  "squeeze_rows values =
     (if list_all (\<lambda>r. length r = 1) values then Inr (map hd values)
      else Inl InvalidArgumentError)"

definition CriticQ_call :: "CriticQ \<Rightarrow> tensor \<Rightarrow> tensor \<Rightarrow> error + real list" where
  "CriticQ_call c states actions =
     ebind (tf_concat_axis1 states actions) (\<lambda>features.
       let features = fold (\<lambda>cur_layer fs. map (cur_layer (net_weights c)) fs) (base_layers c) features;
           values = map (\<lambda>f. [out_layer c (net_weights c) f]) features
       in squeeze_rows values)"

section \<open>The actor\<close>

text \<open>
  Modelled from the spec: \<^verbatim>\<open>GaussianActor\<close> of \<^verbatim>\<open>tf2rl.policies.tfp_gaussian_actor\<close>,
  which is not among the sources. \<open>sample(states, deterministic) \<rightarrow> (actions[B,
  action_dim], log_prob[B])\<close>. Sampling draws from the framework's random generator,
  whose state is passed in and returned; the result is a function of the actor's
  variables, the generator state, the test flag and the states.
\<close>

record GaussianActor =
  actor_call :: "real list list \<Rightarrow> nat \<Rightarrow> bool \<Rightarrow> tensor \<Rightarrow> (tensor \<times> real list) \<times> nat"
  actor_weights :: "real list list"

definition call_actor :: "GaussianActor \<Rightarrow> nat \<Rightarrow> bool \<Rightarrow> tensor \<Rightarrow> (tensor \<times> real list) \<times> nat" where
  "call_actor a g test states = actor_call a (actor_weights a) g test states"

section \<open>The agent\<close>

text \<open>
  \<^verbatim>\<open>class SAC\<close>. \<open>policy_name\<close> and \<open>discount\<close> are set by the base class
  \<^verbatim>\<open>OffPolicyAgent\<close>. \<open>log_alpha\<close>, \<open>target_alpha\<close> and \<open>alpha_optimizer\<close> are attributes
  only of an agent built with \<open>auto_alpha\<close>; reading an absent attribute raises
  \<^verbatim>\<open>AttributeError\<close>. \<open>rng\<close> is the state of the framework's random generator.
\<close>

record SAC =
  policy_name :: string
  discount :: real
  actor :: GaussianActor
  actor_optimizer :: optimizer
  qf1 :: CriticQ
  qf2 :: CriticQ
  qf1_target :: CriticQ
  qf2_target :: CriticQ
  qf_optimizer :: optimizer
  tau :: real
  auto_alpha :: bool
  log_alpha :: "real option"
  alpha :: real
  target_alpha :: "int option"
  alpha_optimizer :: "optimizer option"
  state_ndim :: nat
  rng :: nat

definition get_attr :: "string \<Rightarrow> 'a option \<Rightarrow> error + 'a" where
  "get_attr name v = (case v of None \<Rightarrow> Inl (AttributeError name) | Some x \<Rightarrow> Inr x)"

text \<open>
  The objects that \<^verbatim>\<open>__init__\<close> obtains from Keras: the freshly initialised networks
  and the constructor of an Adam optimizer for a learning rate.
\<close>

record keras_objects =
  new_actor :: GaussianActor
  new_qf1 :: CriticQ
  new_qf2 :: CriticQ
  new_qf1_target :: CriticQ
  new_qf2_target :: CriticQ
  new_adam :: "real \<Rightarrow> optimizer"

text \<open>
  \<^verbatim>\<open>SAC.__init__\<close> with \<^verbatim>\<open>_setup_actor\<close> and \<^verbatim>\<open>_setup_critic_q\<close>. The two calls of
  \<^verbatim>\<open>update_target_variables\<close> with \<open>tau = 1\<close> are written with the arguments in the
  source's order, the live critic's weights first.
\<close>

definition SAC_init ::
  "keras_objects \<Rightarrow> string \<Rightarrow> real \<Rightarrow> nat \<Rightarrow> nat list \<Rightarrow> nat \<Rightarrow> real \<Rightarrow> real \<Rightarrow> real \<Rightarrow> real \<Rightarrow> bool \<Rightarrow> SAC" where
  "SAC_init keras name discount' seed state_shape action_dim lr lr_alpha tau' alpha' auto_alpha' =
     \<lparr> policy_name = name,
       discount = discount',
       actor = new_actor keras,
       actor_optimizer = new_adam keras lr,
       qf1 = (new_qf1 keras)\<lparr>net_weights :=
               update_target_variables (net_weights (new_qf1 keras))
                 (net_weights (new_qf1_target keras)) 1\<rparr>,
       qf2 = (new_qf2 keras)\<lparr>net_weights :=
               update_target_variables (net_weights (new_qf2 keras))
                 (net_weights (new_qf2_target keras)) 1\<rparr>,
       qf1_target = new_qf1_target keras,
       qf2_target = new_qf2_target keras,
       qf_optimizer = new_adam keras lr,
       tau = tau',
       auto_alpha = auto_alpha',
       log_alpha = (if auto_alpha' then Some 0 else None),
       alpha = (if auto_alpha' then exp 0 else alpha'),
       target_alpha = (if auto_alpha' then Some (- int action_dim) else None),
       alpha_optimizer = (if auto_alpha' then Some (new_adam keras lr_alpha) else None),
       state_ndim = length state_shape,
       rng = seed \<rparr>"

subsection \<open>Action selection\<close>

definition get_action_body :: "SAC \<Rightarrow> tensor \<Rightarrow> bool \<Rightarrow> (tensor \<times> real list) \<times> nat" where
  "get_action_body ag state test = call_actor (actor ag) (rng ag) test state"

text \<open>
  \<^verbatim>\<open>SAC.get_action\<close>. The argument is an \<^verbatim>\<open>np.ndarray\<close> by its type. The log-probabilities
  are returned as a tensor, so that the single-observation result \<^verbatim>\<open>logps.numpy()[0]\<close>
  is a rank-0 tensor.
\<close>

definition get_action :: "SAC \<Rightarrow> tensor \<Rightarrow> bool \<Rightarrow> error + ((tensor \<times> tensor) \<times> SAC)" where
  "get_action ag state test =
     (let is_single_state = (length (shape state) = state_ndim ag);
          state = (if is_single_state then expand_dims0 state else state)
      in case get_action_body ag state test of
           ((action, logps), g) \<Rightarrow>
             if is_single_state then
               ebind (index0 action) (\<lambda>action0.
               ebind (index0 (Tensor [length logps] logps)) (\<lambda>logps0.
                 Inr ((action0, logps0), ag\<lparr>rng := g\<rparr>)))
             else Inr ((action, Tensor [length logps] logps), ag\<lparr>rng := g\<rparr>))"

subsection \<open>The training step\<close>

text \<open>
  The values computed under \<^verbatim>\<open>with tf.GradientTape(persistent=True) as tape\<close>
  (lines 141 to 168 of the source), and the generator state after the two samples.
\<close>

record tape_values =
  tape_current_q1 :: "real list"
  tape_current_q2 :: "real list"
  tape_target_q :: "real list"
  tape_td_loss_q1 :: real
  tape_td_loss_q2 :: real
  tape_td_loss_q :: real
  tape_logp :: "real list"
  tape_policy_loss :: real
  tape_alpha_loss :: "real option"
  tape_rng :: nat

definition tape_forward ::
  "SAC \<Rightarrow> tensor \<Rightarrow> tensor \<Rightarrow> tensor \<Rightarrow> real list \<Rightarrow> real list \<Rightarrow> error + tape_values" where
  "tape_forward ag states actions next_states rewards not_dones =
     ebind (CriticQ_call (qf1 ag) states actions) (\<lambda>current_q1.
     ebind (CriticQ_call (qf2 ag) states actions) (\<lambda>current_q2.
     case call_actor (actor ag) (rng ag) False next_states of
       ((sample_next_actions, next_logp), g1) \<Rightarrow>
     ebind (CriticQ_call (qf1_target ag) next_states sample_next_actions) (\<lambda>next_q1_target.
     ebind (CriticQ_call (qf2_target ag) next_states sample_next_actions) (\<lambda>next_q2_target.
     ebind (bcast min next_q1_target next_q2_target) (\<lambda>next_q_min_target.
     ebind (bcast (-) next_q_min_target (map (\<lambda>l. alpha ag * l) next_logp)) (\<lambda>soft_next_q.
     ebind (bcast (*) (map (\<lambda>n. n * discount ag) not_dones) soft_next_q) (\<lambda>bootstrap.
     ebind (bcast (+) rewards bootstrap) (\<lambda>target_q.
     ebind (bcast (-) target_q current_q1) (\<lambda>err_q1.
     ebind (reduce_mean (map (\<lambda>e. e ^ 2) err_q1)) (\<lambda>td_loss_q1.
     ebind (bcast (-) target_q current_q2) (\<lambda>err_q2.
     ebind (reduce_mean (map (\<lambda>e. e ^ 2) err_q2)) (\<lambda>td_loss_q2.
     case call_actor (actor ag) g1 False states of
       ((sample_actions, logp), g2) \<Rightarrow>
     ebind (CriticQ_call (qf1 ag) states sample_actions) (\<lambda>current_q1_policy.
     ebind (CriticQ_call (qf2 ag) states sample_actions) (\<lambda>current_q2_policy.
     ebind (bcast min current_q1_policy current_q2_policy) (\<lambda>current_min_q_policy.
     ebind (bcast (-) (map (\<lambda>l. alpha ag * l) logp) current_min_q_policy) (\<lambda>policy_terms.
     ebind (reduce_mean policy_terms) (\<lambda>policy_loss.
     ebind (if auto_alpha ag then
              ebind (get_attr ''log_alpha'' (log_alpha ag)) (\<lambda>la.
              ebind (get_attr ''target_alpha'' (target_alpha ag)) (\<lambda>ta.
              ebind (reduce_mean (map (\<lambda>l. la * (l + real_of_int ta)) logp)) (\<lambda>m.
                Inr (Some (- m)))))
            else Inr None) (\<lambda>alpha_loss.
       Inr \<lparr> tape_current_q1 = current_q1,
             tape_current_q2 = current_q2,
             tape_target_q = target_q,
             tape_td_loss_q1 = td_loss_q1,
             tape_td_loss_q2 = td_loss_q2,
             tape_td_loss_q = td_loss_q1 + td_loss_q2,
             tape_logp = logp,
             tape_policy_loss = policy_loss,
             tape_alpha_loss = alpha_loss,
             tape_rng = g2 \<rparr>))))))))))))))))))"

text \<open>
  The agent with the values of a list of variables replaced: the losses as functions of
  the variables that \<^verbatim>\<open>tape.gradient\<close> differentiates.
\<close>

definition with_critic_variables :: "SAC \<Rightarrow> real list list \<Rightarrow> SAC" where
  "with_critic_variables ag ws =
     (let n = length (net_weights (qf1 ag))
      in ag\<lparr> qf1 := (qf1 ag)\<lparr>net_weights := take n ws\<rparr>,
             qf2 := (qf2 ag)\<lparr>net_weights := drop n ws\<rparr> \<rparr>)"

definition with_actor_variables :: "SAC \<Rightarrow> real list list \<Rightarrow> SAC" where
  "with_actor_variables ag ws = ag\<lparr> actor := (actor ag)\<lparr>actor_weights := ws\<rparr> \<rparr>"

definition scalar_value :: "real list list \<Rightarrow> real \<Rightarrow> real" where
  "scalar_value ws dflt = (case ws of [[x]] \<Rightarrow> x | _ \<Rightarrow> dflt)"

definition with_log_alpha :: "SAC \<Rightarrow> real list list \<Rightarrow> SAC" where
  "with_log_alpha ag ws = ag\<lparr> log_alpha := map_option (scalar_value ws) (log_alpha ag) \<rparr>"

text \<open>
  The three losses as functions of the variables they are differentiated by. \<open>tape\<close> is
  the taped forward pass as a function of the agent, \<open>ag0\<close> the agent when the tape was
  recorded.
\<close>

definition td_loss_q_at :: "(SAC \<Rightarrow> error + tape_values) \<Rightarrow> SAC \<Rightarrow> real list list \<Rightarrow> error + real" where
  "td_loss_q_at tape ag0 ws = map_sum id tape_td_loss_q (tape (with_critic_variables ag0 ws))"

definition policy_loss_at :: "(SAC \<Rightarrow> error + tape_values) \<Rightarrow> SAC \<Rightarrow> real list list \<Rightarrow> error + real" where
  "policy_loss_at tape ag0 ws = map_sum id tape_policy_loss (tape (with_actor_variables ag0 ws))"

definition alpha_loss_at :: "(SAC \<Rightarrow> error + tape_values) \<Rightarrow> SAC \<Rightarrow> real list list \<Rightarrow> error + real" where
  "alpha_loss_at tape ag0 ws =
     ebind (tape (with_log_alpha ag0 ws)) (\<lambda>t. get_attr ''alpha_loss'' (tape_alpha_loss t))"

text \<open>Lines 170 to 172: the gradient step on both critics with the shared optimizer.\<close>

definition critic_step :: "autodiff \<Rightarrow> (SAC \<Rightarrow> error + tape_values) \<Rightarrow> SAC \<Rightarrow> SAC \<Rightarrow> SAC" where
  "critic_step gradient tape ag0 ag =
     (let trainable_var = net_weights (qf1 ag) @ net_weights (qf2 ag);
          q_grad = gradient (td_loss_q_at tape ag0) trainable_var
      in case apply_gradients (qf_optimizer ag) (zip q_grad trainable_var) of
           (new_values, opt) \<Rightarrow> (with_critic_variables ag new_values)\<lparr>qf_optimizer := opt\<rparr>)"

text \<open>Lines 174 and 175: the soft update of both target critics.\<close>

definition target_step :: "SAC \<Rightarrow> SAC" where
  "target_step ag =
     ag\<lparr> qf1_target := (qf1_target ag)\<lparr>net_weights :=
            update_target_variables (net_weights (qf1_target ag)) (net_weights (qf1 ag)) (tau ag)\<rparr>,
         qf2_target := (qf2_target ag)\<lparr>net_weights :=
            update_target_variables (net_weights (qf2_target ag)) (net_weights (qf2 ag)) (tau ag)\<rparr> \<rparr>"

text \<open>Lines 177 and 178: the gradient step on the actor.\<close>

definition actor_step :: "autodiff \<Rightarrow> (SAC \<Rightarrow> error + tape_values) \<Rightarrow> SAC \<Rightarrow> SAC \<Rightarrow> SAC" where
  "actor_step gradient tape ag0 ag =
     (let actor_var = actor_weights (actor ag);
          actor_grad = gradient (policy_loss_at tape ag0) actor_var
      in case apply_gradients (actor_optimizer ag) (zip actor_grad actor_var) of
           (new_values, opt) \<Rightarrow> (with_actor_variables ag new_values)\<lparr>actor_optimizer := opt\<rparr>)"

text \<open>Lines 180 to 183: the temperature step, taken only when \<open>auto_alpha\<close> is set.\<close>

definition alpha_step :: "autodiff \<Rightarrow> (SAC \<Rightarrow> error + tape_values) \<Rightarrow> SAC \<Rightarrow> SAC \<Rightarrow> error + SAC" where
  "alpha_step gradient tape ag0 ag =
     (if auto_alpha ag then
        ebind (get_attr ''log_alpha'' (log_alpha ag)) (\<lambda>la.
        ebind (get_attr ''alpha_optimizer'' (alpha_optimizer ag)) (\<lambda>opt.
          let alpha_grad = gradient (alpha_loss_at tape ag0) [[la]]
          in case apply_gradients opt (zip alpha_grad [[la]]) of
               (new_values, opt') \<Rightarrow>
                 let la' = scalar_value new_values la
                 in Inr (ag\<lparr> log_alpha := Some la',
                             alpha_optimizer := Some opt',
                             alpha := exp la' \<rparr>)))
      else Inr ag)"

type_synonym train_result = "real list \<times> real \<times> real list \<times> real \<times> real \<times> real \<times> real"

text \<open>
  \<^verbatim>\<open>SAC._train_body\<close> from line 139 on, given the squeezed rewards and dones. The
  losses handed to \<open>gradient\<close> are those of the taped forward pass, that is of the agent
  \<open>ag\<close> as it was when the step began, with the same generator state, as functions of
  the differentiated variables.
\<close>

definition train_core ::
  "autodiff \<Rightarrow> SAC \<Rightarrow> tensor \<Rightarrow> tensor \<Rightarrow> tensor \<Rightarrow> real list \<Rightarrow> real list
     \<Rightarrow> error + (train_result \<times> SAC)" where
  "train_core gradient ag states actions next_states rewards dones =
     (let not_dones = map (\<lambda>d. 1 - d) dones;
          tape = (\<lambda>a. tape_forward a states actions next_states rewards not_dones)
      in
      ebind (tape ag) (\<lambda>t.
      ebind (alpha_step gradient tape ag
               (actor_step gradient tape ag
                 (target_step
                   (critic_step gradient tape ag (ag\<lparr>rng := tape_rng t\<rparr>))))) (\<lambda>ag'.
      ebind (reduce_min (tape_logp t)) (\<lambda>logp_min.
      ebind (reduce_max (tape_logp t)) (\<lambda>logp_max.
      ebind (reduce_mean (tape_logp t)) (\<lambda>logp_mean.
        Inr ((tape_target_q t, tape_policy_loss t, tape_current_q1 t, tape_td_loss_q1 t,
              logp_min, logp_max, logp_mean), ag')))))))"

text \<open>
  \<^verbatim>\<open>SAC._train_body\<close>: the two assertions and the two squeezes of lines 134 to 137,
  then the rest of the body. \<open>weights\<close> is received and not read.
\<close>

definition train_body ::
  "autodiff \<Rightarrow> SAC \<Rightarrow> tensor \<Rightarrow> tensor \<Rightarrow> tensor \<Rightarrow> tensor \<Rightarrow> tensor \<Rightarrow> tensor
     \<Rightarrow> error + (train_result \<times> SAC)" where
  "train_body gradient ag states actions next_states rewards dones weights =
     (if length (shape dones) \<noteq> 2 then Inl AssertionError
      else if length (shape rewards) \<noteq> 2 then Inl AssertionError
      else
        ebind (tf_squeeze_axis1 rewards) (\<lambda>rewards.
        ebind (tf_squeeze_axis1 dones) (\<lambda>dones.
          train_core gradient ag states actions next_states (flat rewards) (flat dones))))"

text \<open>
  The taped forward pass of a training step on a batch, as a function of the agent: the
  \<open>tape\<close> of \<open>train_core\<close> for the squeezed rewards and dones.
\<close>

definition taped :: "tensor \<Rightarrow> tensor \<Rightarrow> tensor \<Rightarrow> tensor \<Rightarrow> tensor \<Rightarrow> SAC \<Rightarrow> error + tape_values" where
  "taped states actions next_states rewards dones a =
     tape_forward a states actions next_states (flat rewards) (map (\<lambda>d. 1 - d) (flat dones))"

text \<open>
  \<^verbatim>\<open>SAC.train\<close>. The calls of \<^verbatim>\<open>tf.summary.scalar\<close> are returned as the list of the
  (name, value) pairs written, in order.
\<close>

definition train ::
  "autodiff \<Rightarrow> SAC \<Rightarrow> tensor \<Rightarrow> tensor \<Rightarrow> tensor \<Rightarrow> tensor \<Rightarrow> tensor \<Rightarrow> tensor option
     \<Rightarrow> error + (real list \<times> (string \<times> real) list \<times> SAC)" where
  "train gradient ag states actions next_states rewards dones weights =
     (let weights = (case weights of None \<Rightarrow> ones_like rewards | Some w \<Rightarrow> w)
      in ebind (train_body gradient ag states actions next_states rewards dones weights)
           (\<lambda>((td_errors, actor_loss, qf1_values, qf1_loss, logp_min, logp_max, logp_mean), ag').
         ebind (reduce_mean qf1_values) (\<lambda>qf1_mean.
         ebind (if auto_alpha ag' then
                  ebind (get_attr ''log_alpha'' (log_alpha ag')) (\<lambda>la.
                  ebind (get_attr ''target_alpha'' (target_alpha ag')) (\<lambda>ta.
                    Inr [(policy_name ag' @ ''/log_ent'', la),
                         (policy_name ag' @ ''/logp_mean+target'', logp_mean + real_of_int ta)]))
                else Inr []) (\<lambda>auto_summaries.
           Inr (td_errors,
                [(policy_name ag' @ ''/actor_loss'', actor_loss),
                 (policy_name ag' @ ''/critic_Q1_value'', qf1_mean),
                 (policy_name ag' @ ''/critic_Q1_loss'', qf1_loss),
                 (policy_name ag' @ ''/logp_min'', logp_min),
                 (policy_name ag' @ ''/logp_max'', logp_max),
                 (policy_name ag' @ ''/logp_mean'', logp_mean)]
                @ auto_summaries @ [(policy_name ag' @ ''/ent'', alpha ag')],
                ag')))))"

subsection \<open>The TD-error query\<close>

text \<open>
  \<^verbatim>\<open>SAC._compute_td_error_body\<close>. Line 204 reads \<^verbatim>\<open>self.vf_target\<close>. No statement of the
  class assigns that attribute (the call \<^verbatim>\<open>self._setup_critic_v\<close> in \<^verbatim>\<open>__init__\<close> is
  commented out), so the read raises \<^verbatim>\<open>AttributeError\<close> and lines 206 to 211 are never
  reached.
\<close>

definition compute_td_error_body ::
  "SAC \<Rightarrow> tensor \<Rightarrow> tensor \<Rightarrow> tensor \<Rightarrow> tensor \<Rightarrow> tensor \<Rightarrow> error + real list" where
  "compute_td_error_body ag states actions next_states rewards dones =
     (let not_dones = map (\<lambda>d. 1 - d) (flat dones)
      in ebind (CriticQ_call (qf1 ag) states actions) (\<lambda>current_q1.
           Inl (AttributeError ''vf_target'')))"

text \<open>
  \<^verbatim>\<open>SAC.compute_td_error\<close>; \<open>actions_is_tensor\<close> is the outcome of
  \<^verbatim>\<open>isinstance(actions, tf.Tensor)\<close>. The agent is not returned: no statement of the
  method or of its body assigns to it.
\<close>

definition compute_td_error ::
  "SAC \<Rightarrow> bool \<Rightarrow> tensor \<Rightarrow> tensor \<Rightarrow> tensor \<Rightarrow> tensor \<Rightarrow> tensor \<Rightarrow> error + real list" where
  "compute_td_error ag actions_is_tensor states actions next_states rewards dones =
     ebind (if actions_is_tensor then expand_dims1 rewards else Inr rewards) (\<lambda>rewards.
     ebind (if actions_is_tensor then expand_dims1 dones else Inr dones) (\<lambda>dones.
       compute_td_error_body ag states actions next_states rewards dones))"

section \<open>The regression target in float32\<close>

text \<open>
  A \<^verbatim>\<open>float32\<close> value: a finite number, an infinity or NaN. Rounding of finite results
  is not modelled; overflow is: a result of magnitude at least \<open>2 ^ 128 - 2 ^ 103\<close>, the
  midpoint between the largest finite \<^verbatim>\<open>float32\<close> and \<open>2 ^ 128\<close>, is an infinity.
\<close>

datatype f32 = Finite real | PosInf | NegInf | NaN

definition f32_overflow :: real where
  "f32_overflow = 2 ^ 128 - 2 ^ 103"

definition in_range :: "real \<Rightarrow> bool" where
  "in_range x \<longleftrightarrow> - f32_overflow < x \<and> x < f32_overflow"

definition fl :: "real \<Rightarrow> f32" where
  "fl x = (if f32_overflow \<le> x then PosInf
           else if x \<le> - f32_overflow then NegInf
           else Finite x)"

text \<open>The IEEE 754 operations on these values.\<close>

fun is_finite :: "f32 \<Rightarrow> bool" where
  "is_finite (Finite x) = True"
| "is_finite x = False"

fun f32_neg :: "f32 \<Rightarrow> f32" where
  "f32_neg (Finite x) = Finite (- x)"
| "f32_neg PosInf = NegInf"
| "f32_neg NegInf = PosInf"
| "f32_neg NaN = NaN"

fun f32_add :: "f32 \<Rightarrow> f32 \<Rightarrow> f32" where
  "f32_add NaN y = NaN"
| "f32_add x NaN = NaN"
| "f32_add (Finite x) (Finite y) = fl (x + y)"
| "f32_add PosInf NegInf = NaN"
| "f32_add NegInf PosInf = NaN"
| "f32_add PosInf y = PosInf"
| "f32_add x PosInf = PosInf"
| "f32_add NegInf y = NegInf"
| "f32_add x NegInf = NegInf"

definition f32_sub :: "f32 \<Rightarrow> f32 \<Rightarrow> f32" where
  "f32_sub x y = f32_add x (f32_neg y)"

fun f32_mul :: "f32 \<Rightarrow> f32 \<Rightarrow> f32" where
  "f32_mul NaN y = NaN"
| "f32_mul x NaN = NaN"
| "f32_mul (Finite x) (Finite y) = fl (x * y)"
| "f32_mul (Finite x) PosInf = (if x = 0 then NaN else if 0 < x then PosInf else NegInf)"
| "f32_mul (Finite x) NegInf = (if x = 0 then NaN else if 0 < x then NegInf else PosInf)"
| "f32_mul PosInf (Finite y) = (if y = 0 then NaN else if 0 < y then PosInf else NegInf)"
| "f32_mul NegInf (Finite y) = (if y = 0 then NaN else if 0 < y then NegInf else PosInf)"
| "f32_mul PosInf PosInf = PosInf"
| "f32_mul NegInf NegInf = PosInf"
| "f32_mul PosInf NegInf = NegInf"
| "f32_mul NegInf PosInf = NegInf"

text \<open>
  \<^verbatim>\<open>tf.minimum(x, y)\<close> is \<open>x < y ? x : y\<close>, with the comparison false when either side is
  NaN.
\<close>

fun f32_less :: "f32 \<Rightarrow> f32 \<Rightarrow> bool" where
  "f32_less NaN y = False"
| "f32_less x NaN = False"
| "f32_less (Finite x) (Finite y) = (x < y)"
| "f32_less x NegInf = False"
| "f32_less NegInf y = True"
| "f32_less PosInf y = False"
| "f32_less x PosInf = True"

definition f32_min :: "f32 \<Rightarrow> f32 \<Rightarrow> f32" where
  "f32_min x y = (if f32_less x y then x else y)"

text \<open>
  Lines 146 to 150 of \<^verbatim>\<open>_train_body\<close> in \<^verbatim>\<open>float32\<close>: the soft value of the next
  states. The target critics' outputs and the log-probabilities enter as \<^verbatim>\<open>float32\<close>
  values, an output beyond the finite range being an infinity.
\<close>

definition soft_next_q_f32 :: "SAC \<Rightarrow> tensor \<Rightarrow> error + f32 list" where
  "soft_next_q_f32 ag next_states =
     (case call_actor (actor ag) (rng ag) False next_states of
        ((sample_next_actions, next_logp), g1) \<Rightarrow>
     ebind (CriticQ_call (qf1_target ag) next_states sample_next_actions) (\<lambda>next_q1_target.
     ebind (CriticQ_call (qf2_target ag) next_states sample_next_actions) (\<lambda>next_q2_target.
     ebind (bcast f32_min (map fl next_q1_target) (map fl next_q2_target)) (\<lambda>next_q_min_target.
       bcast f32_sub next_q_min_target
         (map (\<lambda>l. f32_mul (fl (alpha ag)) (fl l)) next_logp)))))"

text \<open>
  Lines 139 and 152 in \<^verbatim>\<open>float32\<close>: \<open>not_dones = 1 - dones\<close> and
  \<open>target_q = rewards + not_dones * discount * soft_next_q\<close>.
\<close>

definition target_q_f32 :: "SAC \<Rightarrow> tensor \<Rightarrow> real list \<Rightarrow> real list \<Rightarrow> error + f32 list" where
  "target_q_f32 ag next_states rewards dones =
     (let not_dones = map (\<lambda>d. f32_sub (Finite 1) (fl d)) dones
      in ebind (soft_next_q_f32 ag next_states) (\<lambda>soft_next_q.
         ebind (bcast f32_mul (map (\<lambda>n. f32_mul n (fl (discount ag))) not_dones) soft_next_q)
           (\<lambda>bootstrap.
           bcast f32_add (map fl rewards) bootstrap)))"

text \<open>
  The \<^verbatim>\<open>float32\<close> value of \<open>target_q\<close> in \<^verbatim>\<open>_train_body\<close>: the assertions and squeezes
  of lines 134 to 137, the two live critics' calls of lines 143 and 144, whose failure
  ends the step before the target, then lines 146 to 152.
\<close>

definition train_target_f32 ::
  "SAC \<Rightarrow> tensor \<Rightarrow> tensor \<Rightarrow> tensor \<Rightarrow> tensor \<Rightarrow> tensor \<Rightarrow> error + f32 list" where
  "train_target_f32 ag states actions next_states rewards dones =
     (if length (shape dones) \<noteq> 2 then Inl AssertionError
      else if length (shape rewards) \<noteq> 2 then Inl AssertionError
      else
        ebind (tf_squeeze_axis1 rewards) (\<lambda>rewards.
        ebind (tf_squeeze_axis1 dones) (\<lambda>dones.
        ebind (CriticQ_call (qf1 ag) states actions) (\<lambda>current_q1.
        ebind (CriticQ_call (qf2 ag) states actions) (\<lambda>current_q2.
          target_q_f32 ag next_states (flat rewards) (flat dones))))))"

section \<open>Mean squared error, as the specification words it\<close>

text \<open>
  The mean over a batch of the squared difference between a regression target and a
  prediction of the same length.
\<close>

definition mse :: "real list \<Rightarrow> real list \<Rightarrow> real" where
  "mse target q = (\<Sum>i = 0..<length target. (target ! i - q ! i) ^ 2) / real (length target)"

section \<open>A small agent and batch\<close>

text \<open>
  A critic without hidden layers whose output layer is linear in the feature row, an
  actor whose action and log-probability depend on the generator state, plain gradient
  descent as the optimizer, and a difference quotient along the all-ones direction as
  the gradient. The batch has two transitions with one-dimensional states and actions.
\<close>

definition ex_critic :: "real \<Rightarrow> CriticQ" where
  "ex_critic w =
     \<lparr> base_layers = [],
       out_layer = (\<lambda>ws f. case ws of [] \<Rightarrow> 0 | k # _ \<Rightarrow> sum_list (map2 (*) k f)),
       net_weights = [[w, 1]] \<rparr>"

definition ex_actor :: GaussianActor where
  "ex_actor =
     \<lparr> actor_call = (\<lambda>ws g test s.
         case shape s of
           [] \<Rightarrow> ((Tensor [] [], []), g)
         | b # _ \<Rightarrow> ((Tensor [b, 1] (replicate b (scalar_value ws 0 * real g)),
                      replicate b (- 1 - real g)), Suc g)),
       actor_weights = [[1]] \<rparr>"

definition ex_sgd :: "real \<Rightarrow> optimizer" where
  "ex_sgd lr =
     Optimizer (\<lambda>sl gv. (map (\<lambda>(g, v). map2 (\<lambda>gi vi. vi - lr * gi) g v) gv, sl)) []"

definition ex_gradient :: autodiff where
  "ex_gradient loss ws =
     (case (loss (map (map (\<lambda>x. x + 1)) ws), loss ws) of
        (Inr l1, Inr l0) \<Rightarrow> map (map (\<lambda>_. l1 - l0)) ws
      | _ \<Rightarrow> map (map (\<lambda>_. 0)) ws)"

definition ex_keras :: keras_objects where
  "ex_keras =
     \<lparr> new_actor = ex_actor, new_qf1 = ex_critic 1, new_qf2 = ex_critic 2,
       new_qf1_target = ex_critic 1, new_qf2_target = ex_critic 2, new_adam = ex_sgd \<rparr>"

definition ex_agent :: "bool \<Rightarrow> SAC" where
  "ex_agent auto = SAC_init ex_keras ''SAC'' (1 / 2) 0 [1] 1 1 1 (1 / 2) (1 / 2) auto"

definition ex_states :: tensor where "ex_states = Tensor [2, 1] [1, 2]"
definition ex_actions :: tensor where "ex_actions = Tensor [2, 1] [0, 1]"
definition ex_next_states :: tensor where "ex_next_states = Tensor [2, 1] [2, 3]"
definition ex_rewards :: tensor where "ex_rewards = Tensor [2, 1] [1, 0]"
definition ex_dones :: tensor where "ex_dones = Tensor [2, 1] [0, 1]"
definition ex_all_done :: tensor where "ex_all_done = Tensor [2, 1] [1, 1]"

text \<open>
  An agent whose target critics have slopes 2 and 4, and next states near the top of the
  \<^verbatim>\<open>float32\<close> range.
\<close>

definition ex_keras_steep :: keras_objects where
  "ex_keras_steep =
     \<lparr> new_actor = ex_actor, new_qf1 = ex_critic 2, new_qf2 = ex_critic 4,
       new_qf1_target = ex_critic 2, new_qf2_target = ex_critic 4, new_adam = ex_sgd \<rparr>"

definition ex_agent_steep :: SAC where
  "ex_agent_steep = SAC_init ex_keras_steep ''SAC'' (1 / 2) 0 [1] 1 1 1 (1 / 2) (1 / 2) False"

definition ex_far_next_states :: tensor where
  "ex_far_next_states = Tensor [2, 1] [3 * 10 ^ 38, 3 * 10 ^ 38]"

text \<open>What of a step's result the examples look at.\<close>

definition observe :: "train_result \<times> SAC \<Rightarrow>
    train_result \<times> real list list \<times> real list list \<times> real list list \<times> real list list
      \<times> real list list \<times> real option \<times> nat" where
  "observe r =
     (fst r, net_weights (qf1 (snd r)), net_weights (qf2 (snd r)),
      net_weights (qf1_target (snd r)), net_weights (qf2_target (snd r)),
      actor_weights (actor (snd r)), log_alpha (snd r), rng (snd r))"

section \<open>Basic facts\<close>

lemma ebind_Inl [simp]: "ebind (Inl e) f = Inl e"
  by (simp add: ebind_def)

lemma ebind_Inr [simp]: "ebind (Inr x) f = f x"
  by (simp add: ebind_def)

lemma ebind_eq_Inr: "ebind m f = Inr y \<longleftrightarrow> (\<exists>x. m = Inr x \<and> f x = Inr y)"
  by (cases m) simp_all

lemma bcast_same: "length xs = length ys \<Longrightarrow> bcast f xs ys = Inr (map2 f xs ys)"
  by (simp add: bcast_def)

lemma fold_map_length: "length (fold (\<lambda>l fs. map (g l) fs) ls xs) = length xs"
  by (induction ls arbitrary: xs) simp_all

lemma rows_length: "rows t = Inr rs \<Longrightarrow> shape t = b # sh \<Longrightarrow> length rs = b"
  by (auto simp: rows_def split: list.splits)

text \<open>A critic returns one value per row of its states.\<close>

lemma CriticQ_call_length:
  assumes "CriticQ_call c s a = Inr q" and "shape s = b # sh"
  shows "length q = b"
  using assms
  by (auto simp: CriticQ_call_def tf_concat_axis1_def ebind_eq_Inr squeeze_rows_def Let_def
      fold_map_length dest!: rows_length split: if_splits)

text \<open>What a successful forward pass computed, step by step.\<close>

lemma tape_forward_inv:
  assumes "tape_forward ag states actions next_states rewards not_dones = Inr t"
    and "call_actor (actor ag) (rng ag) False next_states = ((na, nlp), g1)"
    and "call_actor (actor ag) g1 False states = ((sa, lp), g2)"
  shows "\<exists>q1t q2t qmin soft boot e1 e2 q1p q2p pmin pterms.
     CriticQ_call (qf1 ag) states actions = Inr (tape_current_q1 t) \<and>
     CriticQ_call (qf2 ag) states actions = Inr (tape_current_q2 t) \<and>
     CriticQ_call (qf1_target ag) next_states na = Inr q1t \<and>
     CriticQ_call (qf2_target ag) next_states na = Inr q2t \<and>
     bcast min q1t q2t = Inr qmin \<and>
     bcast (-) qmin (map (\<lambda>l. alpha ag * l) nlp) = Inr soft \<and>
     bcast (*) (map (\<lambda>n. n * discount ag) not_dones) soft = Inr boot \<and>
     bcast (+) rewards boot = Inr (tape_target_q t) \<and>
     bcast (-) (tape_target_q t) (tape_current_q1 t) = Inr e1 \<and>
     reduce_mean (map (\<lambda>e. e ^ 2) e1) = Inr (tape_td_loss_q1 t) \<and>
     bcast (-) (tape_target_q t) (tape_current_q2 t) = Inr e2 \<and>
     reduce_mean (map (\<lambda>e. e ^ 2) e2) = Inr (tape_td_loss_q2 t) \<and>
     tape_td_loss_q t = tape_td_loss_q1 t + tape_td_loss_q2 t \<and>
     tape_logp t = lp \<and>
     CriticQ_call (qf1 ag) states sa = Inr q1p \<and>
     CriticQ_call (qf2 ag) states sa = Inr q2p \<and>
     bcast min q1p q2p = Inr pmin \<and>
     bcast (-) (map (\<lambda>l. alpha ag * l) lp) pmin = Inr pterms \<and>
     reduce_mean pterms = Inr (tape_policy_loss t) \<and>
     tape_rng t = g2 \<and>
     (if auto_alpha ag then
        ebind (get_attr ''log_alpha'' (log_alpha ag)) (\<lambda>la.
        ebind (get_attr ''target_alpha'' (target_alpha ag)) (\<lambda>ta.
        ebind (reduce_mean (map (\<lambda>l. la * (l + real_of_int ta)) lp)) (\<lambda>m.
          Inr (Some (- m)))))
      else Inr None) = Inr (tape_alpha_loss t)"
  using assms(1) unfolding tape_forward_def
  by (cases t) (auto simp: assms(2,3) ebind_eq_Inr)

lemma squeeze_flat: "tf_squeeze_axis1 x = Inr y \<Longrightarrow> flat y = flat x"
  by (auto simp: tf_squeeze_axis1_def split: list.splits if_splits)

lemma train_body_inv:
  assumes "train_body gradient ag states actions next_states rewards dones weights = Inr (out, ag')"
  shows "\<exists>t lmin lmax lmean.
     taped states actions next_states rewards dones ag = Inr t \<and>
     alpha_step gradient (taped states actions next_states rewards dones) ag
       (actor_step gradient (taped states actions next_states rewards dones) ag
         (target_step
           (critic_step gradient (taped states actions next_states rewards dones) ag
              (ag\<lparr>rng := tape_rng t\<rparr>)))) = Inr ag' \<and>
     reduce_min (tape_logp t) = Inr lmin \<and>
     reduce_max (tape_logp t) = Inr lmax \<and>
     reduce_mean (tape_logp t) = Inr lmean \<and>
     out = (tape_target_q t, tape_policy_loss t, tape_current_q1 t, tape_td_loss_q1 t,
            lmin, lmax, lmean)"
proof -
  have eta: "taped states actions next_states rewards dones =
      (\<lambda>a. tape_forward a states actions next_states (flat rewards) (map (\<lambda>d. 1 - d) (flat dones)))"
    by (rule ext) (simp add: taped_def)
  from assms show ?thesis
    unfolding eta
    by (auto simp: train_body_def train_core_def ebind_eq_Inr Let_def
        dest!: squeeze_flat split: if_splits)
qed

lemma target_q_batch:
  assumes "bcast min q1t q2t = Inr qmin"
    and "bcast (-) qmin (map (\<lambda>l. a * l) nlp) = Inr soft"
    and "bcast (*) (map (\<lambda>n. n * g) nd) soft = Inr boot"
    and "bcast (+) r boot = Inr tq"
    and "length q1t = B" "length q2t = B" "length nlp = B" "length nd = B" "length r = B"
  shows "length tq = B \<and>
    (\<forall>i<B. tq ! i = r ! i + nd ! i * g * (min (q1t ! i) (q2t ! i) - a * nlp ! i))"
  using assms by (auto simp: bcast_same)

lemma mse_batch:
  assumes "bcast (-) tq q = Inr e"
    and "reduce_mean (map (\<lambda>e. e ^ 2) e) = Inr l"
    and "length q = length tq"
  shows "l = mse tq q \<and> tq \<noteq> []"
proof -
  from assms(1,3) have e: "e = map2 (-) tq q"
    by (simp add: bcast_same)
  from assms(2) have ne: "e \<noteq> []" and l: "l = sum_list (map (\<lambda>e. e ^ 2) e) / real (length e)"
    by (auto simp: reduce_mean_def split: if_splits)
  have len: "length e = length tq"
    using e assms(3) by simp
  have "sum_list (map (\<lambda>e. e ^ 2) e) = (\<Sum>i = 0..<length tq. (tq ! i - q ! i) ^ 2)"
    unfolding sum_list_sum_nth using len e assms(3)
    by (intro sum.cong) auto
  with l len ne show ?thesis
    by (auto simp: mse_def)
qed

lemma policy_batch:
  assumes "bcast min q1p q2p = Inr pmin"
    and "bcast (-) (map (\<lambda>l. a * l) lp) pmin = Inr pterms"
    and "reduce_mean pterms = Inr l"
    and "length q1p = B" "length q2p = B" "length lp = B"
  shows "l = (\<Sum>i = 0..<B. a * lp ! i - min (q1p ! i) (q2p ! i)) / real B \<and> 0 < B"
proof -
  from assms have p: "pterms = map2 (-) (map (\<lambda>l. a * l) lp) (map2 min q1p q2p)"
    by (auto simp: bcast_same)
  from assms(3) have ne: "pterms \<noteq> []" and l: "l = sum_list pterms / real (length pterms)"
    by (auto simp: reduce_mean_def split: if_splits)
  have len: "length pterms = B"
    using p assms by simp
  have "sum_list pterms = (\<Sum>i = 0..<B. a * lp ! i - min (q1p ! i) (q2p ! i))"
    unfolding sum_list_sum_nth len using p assms(4-6)
    by (intro sum.cong) auto
  with l len ne show ?thesis
    by auto
qed


lemma taped_target:
  assumes t: "taped states actions next_states rewards dones ag = Inr t"
    and len: "length (flat rewards) = B" "length (flat dones) = B"
    and ns: "shape next_states = B # sh"
    and act: "call_actor (actor ag) (rng ag) False next_states = ((na, nlp), g1)"
    and nlp: "length nlp = B"
  shows "\<exists>q1t q2t.
      CriticQ_call (qf1_target ag) next_states na = Inr q1t \<and>
      CriticQ_call (qf2_target ag) next_states na = Inr q2t \<and>
      length (tape_target_q t) = B \<and>
      (\<forall>i<B. tape_target_q t ! i =
         flat rewards ! i + (1 - flat dones ! i) * discount ag *
           (min (q1t ! i) (q2t ! i) - alpha ag * nlp ! i))"
proof -
  obtain sa lp g2 where act2: "call_actor (actor ag) g1 False states = ((sa, lp), g2)"
    by (metis prod.exhaust)
  from tape_forward_inv [OF t [unfolded taped_def] act act2]
  obtain q1t q2t qmin soft boot where
    q1t: "CriticQ_call (qf1_target ag) next_states na = Inr q1t" and
    q2t: "CriticQ_call (qf2_target ag) next_states na = Inr q2t" and
    qmin: "bcast min q1t q2t = Inr qmin" and
    soft: "bcast (-) qmin (map (\<lambda>l. alpha ag * l) nlp) = Inr soft" and
    boot: "bcast (*) (map (\<lambda>n. n * discount ag) (map (\<lambda>d. 1 - d) (flat dones))) soft = Inr boot" and
    tq: "bcast (+) (flat rewards) boot = Inr (tape_target_q t)"
    by blast
  have l1: "length q1t = B" and l2: "length q2t = B"
    using CriticQ_call_length [OF q1t ns] CriticQ_call_length [OF q2t ns] by simp_all
  have "length (tape_target_q t) = B \<and>
    (\<forall>i<B. tape_target_q t ! i = flat rewards ! i + map (\<lambda>d. 1 - d) (flat dones) ! i * discount ag *
        (min (q1t ! i) (q2t ! i) - alpha ag * nlp ! i))"
    by (rule target_q_batch [OF qmin soft boot tq l1 l2 nlp _ len(1)]) (simp add: len)
  with q1t q2t len show ?thesis
    by auto
qed

lemma taped_critic_loss:
  assumes t: "taped states actions next_states rewards dones ag = Inr t"
    and st: "shape states = B # sh"
    and tq: "length (tape_target_q t) = B"
  shows "CriticQ_call (qf1 ag) states actions = Inr (tape_current_q1 t) \<and>
      CriticQ_call (qf2 ag) states actions = Inr (tape_current_q2 t) \<and>
      tape_td_loss_q1 t = mse (tape_target_q t) (tape_current_q1 t) \<and>
      tape_td_loss_q2 t = mse (tape_target_q t) (tape_current_q2 t) \<and>
      tape_td_loss_q t =
        mse (tape_target_q t) (tape_current_q1 t) + mse (tape_target_q t) (tape_current_q2 t) \<and>
      0 < B"
proof -
  obtain na nlp g1 where act: "call_actor (actor ag) (rng ag) False next_states = ((na, nlp), g1)"
    by (metis prod.exhaust)
  obtain sa lp g2 where act2: "call_actor (actor ag) g1 False states = ((sa, lp), g2)"
    by (metis prod.exhaust)
  from tape_forward_inv [OF t [unfolded taped_def] act act2]
  obtain e1 e2 where
    q1: "CriticQ_call (qf1 ag) states actions = Inr (tape_current_q1 t)" and
    q2: "CriticQ_call (qf2 ag) states actions = Inr (tape_current_q2 t)" and
    e1: "bcast (-) (tape_target_q t) (tape_current_q1 t) = Inr e1" and
    l1: "reduce_mean (map (\<lambda>e. e ^ 2) e1) = Inr (tape_td_loss_q1 t)" and
    e2: "bcast (-) (tape_target_q t) (tape_current_q2 t) = Inr e2" and
    l2: "reduce_mean (map (\<lambda>e. e ^ 2) e2) = Inr (tape_td_loss_q2 t)" and
    l: "tape_td_loss_q t = tape_td_loss_q1 t + tape_td_loss_q2 t"
    by blast
  have n1: "length (tape_current_q1 t) = length (tape_target_q t)"
    and n2: "length (tape_current_q2 t) = length (tape_target_q t)"
    using CriticQ_call_length [OF q1 st] CriticQ_call_length [OF q2 st] tq by simp_all
  from mse_batch [OF e1 l1 n1] mse_batch [OF e2 l2 n2] q1 q2 l tq show ?thesis
    by auto
qed

lemma taped_target_fixed:
  assumes t: "taped states actions next_states rewards dones ag = Inr t"
    and t': "taped states actions next_states rewards dones (with_critic_variables ag ws) = Inr t'"
  shows "tape_target_q t' = tape_target_q t"
proof -
  let ?ag' = "with_critic_variables ag ws"
  have same: "actor ?ag' = actor ag" "rng ?ag' = rng ag" "qf1_target ?ag' = qf1_target ag"
    "qf2_target ?ag' = qf2_target ag" "alpha ?ag' = alpha ag" "discount ?ag' = discount ag"
    by (simp_all add: with_critic_variables_def Let_def)
  obtain na nlp g1 where act: "call_actor (actor ag) (rng ag) False next_states = ((na, nlp), g1)"
    by (metis prod.exhaust)
  obtain sa lp g2 where act2: "call_actor (actor ag) g1 False states = ((sa, lp), g2)"
    by (metis prod.exhaust)
  from tape_forward_inv [OF t [unfolded taped_def] act act2]
  obtain q1t q2t qmin soft boot where
    a: "CriticQ_call (qf1_target ag) next_states na = Inr q1t"
       "CriticQ_call (qf2_target ag) next_states na = Inr q2t"
       "bcast min q1t q2t = Inr qmin"
       "bcast (-) qmin (map (\<lambda>l. alpha ag * l) nlp) = Inr soft"
       "bcast (*) (map (\<lambda>n. n * discount ag) (map (\<lambda>d. 1 - d) (flat dones))) soft = Inr boot"
       "bcast (+) (flat rewards) boot = Inr (tape_target_q t)"
    by blast
  from tape_forward_inv [OF t' [unfolded taped_def], of na nlp g1 sa lp g2] act act2
  obtain q1t' q2t' qmin' soft' boot' where
    b: "CriticQ_call (qf1_target ag) next_states na = Inr q1t'"
       "CriticQ_call (qf2_target ag) next_states na = Inr q2t'"
       "bcast min q1t' q2t' = Inr qmin'"
       "bcast (-) qmin' (map (\<lambda>l. alpha ag * l) nlp) = Inr soft'"
       "bcast (*) (map (\<lambda>n. n * discount ag) (map (\<lambda>d. 1 - d) (flat dones))) soft' = Inr boot'"
       "bcast (+) (flat rewards) boot' = Inr (tape_target_q t')"
    unfolding same by blast
  from a b show ?thesis
    by simp
qed


lemmas ex_defs = ex_critic_def ex_actor_def ex_sgd_def ex_gradient_def ex_keras_def ex_agent_def
  ex_states_def ex_actions_def ex_next_states_def ex_rewards_def ex_dones_def ex_all_done_def
  SAC_init_def

lemmas run_defs = CriticQ_call_def tf_concat_axis1_def rows_def ebind_def squeeze_rows_def upt_rec
  tape_forward_def call_actor_def bcast_def reduce_mean_def reduce_min_def reduce_max_def
  get_attr_def update_target_variables_def scalar_value_def tf_squeeze_axis1_def eval_nat_numeral
  train_body_def train_core_def critic_step_def actor_step_def alpha_step_def target_step_def
  with_critic_variables_def with_actor_variables_def with_log_alpha_def apply_gradients_def
  td_loss_q_at_def policy_loss_at_def alpha_loss_at_def Let_def

lemma ex_step:
  "map_sum id observe
     (train_body ex_gradient (ex_agent False) ex_states ex_actions ex_next_states
        ex_rewards ex_dones ex_dones) =
   Inr (([9 / 4, 0], - (7 / 2), [1, 3], 169 / 32, - 2, - 2, - 2),
        [[- (63 / 2), - (63 / 2)]], [[- (61 / 2), - (63 / 2)]],
        [[- (61 / 4), - (61 / 4)]], [[- (57 / 4), - (61 / 4)]], [[2]], None, 2)"
  by (simp add: ex_defs run_defs observe_def)

lemma ex_actor_next:
  "call_actor (actor (ex_agent b)) (rng (ex_agent b)) False ex_next_states =
     ((Tensor [2, 1] [0, 0], [- 1, - 1]), 1)"
  by (simp add: ex_defs call_actor_def scalar_value_def eval_nat_numeral)

lemma ex_actor_states:
  "call_actor (actor (ex_agent b)) 1 False ex_states = ((Tensor [2, 1] [1, 1], [- 2, - 2]), 2)"
  by (simp add: ex_defs call_actor_def scalar_value_def eval_nat_numeral)

lemma with_critic_variables_current:
  "with_critic_variables ag (net_weights (qf1 ag) @ net_weights (qf2 ag)) = ag"
  by (simp add: with_critic_variables_def)

text \<open>What each of the four update steps leaves as it was.\<close>

lemma steps_frame:
  "alpha (critic_step gradient tape ag0 ag) = alpha ag"
  "auto_alpha (critic_step gradient tape ag0 ag) = auto_alpha ag"
  "log_alpha (critic_step gradient tape ag0 ag) = log_alpha ag"
  "target_alpha (critic_step gradient tape ag0 ag) = target_alpha ag"
  "alpha_optimizer (critic_step gradient tape ag0 ag) = alpha_optimizer ag"
  "qf1_target (critic_step gradient tape ag0 ag) = qf1_target ag"
  "qf2_target (critic_step gradient tape ag0 ag) = qf2_target ag"
  "tau (critic_step gradient tape ag0 ag) = tau ag"
  "alpha (target_step ag) = alpha ag"
  "auto_alpha (target_step ag) = auto_alpha ag"
  "log_alpha (target_step ag) = log_alpha ag"
  "target_alpha (target_step ag) = target_alpha ag"
  "alpha_optimizer (target_step ag) = alpha_optimizer ag"
  "qf1 (target_step ag) = qf1 ag"
  "qf2 (target_step ag) = qf2 ag"
  "alpha (actor_step gradient tape ag0 ag) = alpha ag"
  "auto_alpha (actor_step gradient tape ag0 ag) = auto_alpha ag"
  "log_alpha (actor_step gradient tape ag0 ag) = log_alpha ag"
  "target_alpha (actor_step gradient tape ag0 ag) = target_alpha ag"
  "alpha_optimizer (actor_step gradient tape ag0 ag) = alpha_optimizer ag"
  "qf1 (actor_step gradient tape ag0 ag) = qf1 ag"
  "qf2 (actor_step gradient tape ag0 ag) = qf2 ag"
  "qf1_target (actor_step gradient tape ag0 ag) = qf1_target ag"
  "qf2_target (actor_step gradient tape ag0 ag) = qf2_target ag"
  by (simp_all add: critic_step_def target_step_def actor_step_def with_critic_variables_def
      with_actor_variables_def Let_def split: prod.splits)

lemma alpha_step_frame:
  assumes "alpha_step gradient tape ag0 ag = Inr ag'"
  shows "qf1 ag' = qf1 ag" "qf2 ag' = qf2 ag" "qf1_target ag' = qf1_target ag"
    "qf2_target ag' = qf2_target ag" "auto_alpha ag' = auto_alpha ag"
    "target_alpha ag' = target_alpha ag"
    "\<not> auto_alpha ag \<Longrightarrow> ag' = ag"
  using assms
  by (auto simp: alpha_step_def ebind_eq_Inr Let_def split_beta split: if_splits)

lemma ex_step_auto:
  "map_sum id observe
     (train_body ex_gradient (ex_agent True) ex_states ex_actions ex_next_states
        ex_rewards ex_dones ex_dones) =
   Inr (([5 / 2, 0], - (9 / 2), [1, 3], 45 / 8, - 2, - 2, - 2),
        [[- 31, - 31]], [[- 30, - 31]], [[- 15, - 15]], [[- 14, - 15]],
        [[2]], Some (- 3), 2)"
  by (simp add: ex_defs run_defs observe_def)

lemma tape_forward_log_alpha:
  assumes t: "tape_forward ag states actions next_states rewards not_dones = Inr t"
    and auto: "auto_alpha ag"
  shows "\<exists>la ta.
     log_alpha ag = Some la \<and> target_alpha ag = Some ta \<and> tape_logp t \<noteq> [] \<and>
     (\<forall>x. tape_forward (ag\<lparr>log_alpha := Some x\<rparr>) states actions next_states rewards not_dones =
        Inr (t\<lparr>tape_alpha_loss :=
               Some (- (sum_list (map (\<lambda>l. x * (l + real_of_int ta)) (tape_logp t)) /
                         real (length (tape_logp t))))\<rparr>))"
proof -
  obtain na nlp g1 where act: "call_actor (actor ag) (rng ag) False next_states = ((na, nlp), g1)"
    by (metis prod.exhaust)
  obtain sa lp g2 where act2: "call_actor (actor ag) g1 False states = ((sa, lp), g2)"
    by (metis prod.exhaust)
  from tape_forward_inv [OF t act act2] auto
  obtain q1t q2t qmin soft boot e1 e2 q1p q2p pmin pterms where
    f: "CriticQ_call (qf1 ag) states actions = Inr (tape_current_q1 t)"
     "CriticQ_call (qf2 ag) states actions = Inr (tape_current_q2 t)"
     "CriticQ_call (qf1_target ag) next_states na = Inr q1t"
     "CriticQ_call (qf2_target ag) next_states na = Inr q2t"
     "bcast min q1t q2t = Inr qmin"
     "bcast (-) qmin (map (\<lambda>l. alpha ag * l) nlp) = Inr soft"
     "bcast (*) (map (\<lambda>n. n * discount ag) not_dones) soft = Inr boot"
     "bcast (+) rewards boot = Inr (tape_target_q t)"
     "bcast (-) (tape_target_q t) (tape_current_q1 t) = Inr e1"
     "reduce_mean (map (\<lambda>e. e ^ 2) e1) = Inr (tape_td_loss_q1 t)"
     "bcast (-) (tape_target_q t) (tape_current_q2 t) = Inr e2"
     "reduce_mean (map (\<lambda>e. e ^ 2) e2) = Inr (tape_td_loss_q2 t)"
     "tape_td_loss_q t = tape_td_loss_q1 t + tape_td_loss_q2 t"
     "tape_logp t = lp"
     "CriticQ_call (qf1 ag) states sa = Inr q1p"
     "CriticQ_call (qf2 ag) states sa = Inr q2p"
     "bcast min q1p q2p = Inr pmin"
     "bcast (-) (map (\<lambda>l. alpha ag * l) lp) pmin = Inr pterms"
     "reduce_mean pterms = Inr (tape_policy_loss t)"
     "tape_rng t = g2" and
    al: "ebind (get_attr ''log_alpha'' (log_alpha ag)) (\<lambda>la.
        ebind (get_attr ''target_alpha'' (target_alpha ag)) (\<lambda>ta.
        ebind (reduce_mean (map (\<lambda>l. la * (l + real_of_int ta)) lp)) (\<lambda>m.
          Inr (Some (- m))))) = Inr (tape_alpha_loss t)"
    by auto
  from al obtain la ta where la: "log_alpha ag = Some la" and ta: "target_alpha ag = Some ta"
    and ne: "lp \<noteq> []"
    by (auto simp: ebind_eq_Inr get_attr_def reduce_mean_def split: option.splits if_splits)
  have "tape_forward (ag\<lparr>log_alpha := Some x\<rparr>) states actions next_states rewards not_dones =
        Inr (t\<lparr>tape_alpha_loss :=
               Some (- (sum_list (map (\<lambda>l. x * (l + real_of_int ta)) (tape_logp t)) /
                         real (length (tape_logp t))))\<rparr>)" for x
    unfolding tape_forward_def
    by (cases t) (use f act act2 auto ta ne in \<open>simp add: get_attr_def reduce_mean_def\<close>)
  with la ta ne f(14) show ?thesis
    by blast
qed

lemma train_inv:
  assumes "train gradient ag states actions next_states rewards dones weights =
      Inr (td_errors, summaries, ag')"
  shows "\<exists>out. train_body gradient ag states actions next_states rewards dones
        (case weights of None \<Rightarrow> ones_like rewards | Some w \<Rightarrow> w) = Inr (out, ag') \<and>
      td_errors = fst out"
proof -
  from assms obtain r where
    r: "train_body gradient ag states actions next_states rewards dones
          (case weights of None \<Rightarrow> ones_like rewards | Some w \<Rightarrow> w) = Inr r"
      and "td_errors = fst (fst r)" "ag' = snd r"
    by (auto simp: train_def ebind_eq_Inr Let_def split_beta)
  then show ?thesis
    by (intro exI [of _ "fst r"]) simp
qed

lemma train_body_alpha_frame:
  assumes ok: "train_body gradient ag states actions next_states rewards dones w = Inr (out, ag')"
    and off: "\<not> auto_alpha ag"
  shows "alpha ag' = alpha ag \<and> auto_alpha ag' = auto_alpha ag"
proof -
  let ?tape = "taped states actions next_states rewards dones"
  from train_body_inv [OF ok] obtain t where
    t: "?tape ag = Inr t" and
    st: "alpha_step gradient ?tape ag
       (actor_step gradient ?tape ag
         (target_step (critic_step gradient ?tape ag (ag\<lparr>rng := tape_rng t\<rparr>)))) = Inr ag'"
    by auto
  let ?pre = "actor_step gradient ?tape ag
         (target_step (critic_step gradient ?tape ag (ag\<lparr>rng := tape_rng t\<rparr>)))"
  have pre: "auto_alpha ?pre = auto_alpha ag" "alpha ?pre = alpha ag"
    by (simp_all add: steps_frame)
  with off alpha_step_frame(7) [OF st] show ?thesis
    by simp
qed

lemma ex_train:
  "map_sum id (\<lambda>(td, s, a). (td, s, net_weights (qf1 a), actor_weights (actor a)))
     (train ex_gradient (ex_agent False) ex_states ex_actions ex_next_states
        ex_rewards ex_dones None) =
   Inr ([9 / 4, 0],
        [(''SAC/actor_loss'', - (7 / 2)), (''SAC/critic_Q1_value'', 2),
         (''SAC/critic_Q1_loss'', 169 / 32), (''SAC/logp_min'', - 2), (''SAC/logp_max'', - 2),
         (''SAC/logp_mean'', - 2), (''SAC/ent'', 1 / 2)],
        [[- (63 / 2), - (63 / 2)]], [[2]])"
  by (simp add: train_def ex_defs run_defs)

text \<open>
  A batch of \<open>B > 0\<close> transitions with rank-2 states and actions, an actor that answers
  with one action row and one log-probability per state, and, under \<open>auto_alpha\<close>, the
  three temperature attributes present: on such a call the step raises nothing.
\<close>

lemma CriticQ_call_returns:
  assumes "shape s = [B, ds]" and "shape a = [B, da]"
  shows "\<exists>q. CriticQ_call c s a = Inr q \<and> length q = B"
  using assms
  by (simp add: CriticQ_call_def tf_concat_axis1_def rows_def squeeze_rows_def Let_def
      fold_map_length list_all_iff)

lemma tape_forward_returns:
  assumes B: "0 < B"
    and len: "length rewards = B" "length not_dones = B"
    and sh: "shape states = [B, ds]" "shape actions = [B, da]" "shape next_states = [B, ds]"
    and act: "call_actor (actor ag) (rng ag) False next_states = ((na, nlp), g1)"
      "shape na = [B, da]" "length nlp = B"
    and act': "call_actor (actor ag) g1 False states = ((sa, lp), g2)"
      "shape sa = [B, da]" "length lp = B"
    and attrs: "auto_alpha ag \<Longrightarrow> log_alpha ag \<noteq> None \<and> target_alpha ag \<noteq> None"
  shows "\<exists>t. tape_forward ag states actions next_states rewards not_dones = Inr t"
proof -
  from CriticQ_call_returns [OF sh(1,2)] obtain q1 q2 where
    q: "CriticQ_call (qf1 ag) states actions = Inr q1" "length q1 = B"
      "CriticQ_call (qf2 ag) states actions = Inr q2" "length q2 = B"
    by metis
  from CriticQ_call_returns [OF sh(3) act(2)] obtain q1t q2t where
    qt: "CriticQ_call (qf1_target ag) next_states na = Inr q1t" "length q1t = B"
      "CriticQ_call (qf2_target ag) next_states na = Inr q2t" "length q2t = B"
    by metis
  from CriticQ_call_returns [OF sh(1) act'(2)] obtain q1p q2p where
    qp: "CriticQ_call (qf1 ag) states sa = Inr q1p" "length q1p = B"
      "CriticQ_call (qf2 ag) states sa = Inr q2p" "length q2p = B"
    by metis
  have ne: "lp \<noteq> []"
    using B act'(3) by auto
  show ?thesis
    unfolding tape_forward_def
    using B len q qt qp act act' attrs ne
    by (cases "auto_alpha ag")
      (auto simp: bcast_same reduce_mean_def get_attr_def split: option.splits)
qed


lemma train_body_returns:
  assumes B: "0 < B"
    and r: "shape rewards = [B, 1]" "length (flat rewards) = B"
    and d: "shape dones = [B, 1]" "length (flat dones) = B"
    and sh: "shape states = [B, ds]" "shape actions = [B, da]" "shape next_states = [B, ds]"
    and act: "call_actor (actor ag) (rng ag) False next_states = ((na, nlp), g1)"
      "shape na = [B, da]" "length nlp = B"
    and act': "call_actor (actor ag) g1 False states = ((sa, lp), g2)"
      "shape sa = [B, da]" "length lp = B"
    and attrs: "auto_alpha ag \<Longrightarrow>
      log_alpha ag \<noteq> None \<and> target_alpha ag \<noteq> None \<and> alpha_optimizer ag \<noteq> None"
  shows "\<exists>out ag'. train_body gradient ag states actions next_states rewards dones weights =
      Inr (out, ag')"
proof -
  let ?nd = "map (\<lambda>d. 1 - d) (flat dones)"
  let ?tape = "\<lambda>a. tape_forward a states actions next_states (flat rewards) ?nd"
  from tape_forward_returns [OF B r(2) _ sh act act', of ?nd] d(2) attrs
  obtain t where t: "?tape ag = Inr t"
    by auto
  from tape_forward_inv [OF t act(1) act'(1)] have lp: "tape_logp t = lp"
    by blast
  with B act'(3) have ne: "tape_logp t \<noteq> []"
    by auto
  let ?pre = "actor_step gradient ?tape ag
      (target_step (critic_step gradient ?tape ag (ag\<lparr>rng := tape_rng t\<rparr>)))"
  have pre: "auto_alpha ?pre = auto_alpha ag" "log_alpha ?pre = log_alpha ag"
    "alpha_optimizer ?pre = alpha_optimizer ag"
    by (simp_all add: steps_frame)
  have "\<exists>ag'. alpha_step gradient ?tape ag ?pre = Inr ag'"
    unfolding alpha_step_def pre using attrs
    by (cases "auto_alpha ag") (auto simp: get_attr_def Let_def split_beta)
  then obtain ag' where st: "alpha_step gradient ?tape ag ?pre = Inr ag'"
    by blast
  show ?thesis
    using r(1) d(1) t st ne
    by (simp add: train_body_def tf_squeeze_axis1_def train_core_def Let_def
        reduce_min_def reduce_max_def reduce_mean_def)
qed

text \<open>Facts about the \<^verbatim>\<open>float32\<close> target.\<close>

lemma fl_in_range: "in_range x \<Longrightarrow> fl x = Finite x"
  by (simp add: fl_def in_range_def)

lemma in_range_0 [simp]: "in_range 0" and in_range_1 [simp]: "in_range 1"
  by (simp_all add: in_range_def f32_overflow_def)

lemma f32_mul_zero: "f32_mul (Finite 0) s = (if is_finite s then Finite 0 else NaN)"
  by (cases s) (simp_all add: fl_in_range)

lemma soft_next_q_f32_length:
  assumes "soft_next_q_f32 ag next_states = Inr soft"
    and "shape next_states = B # sh"
    and "length (snd (fst (call_actor (actor ag) (rng ag) False next_states))) = B"
  shows "length soft = B"
proof -
  obtain na nlp g1 where
    act: "call_actor (actor ag) (rng ag) False next_states = ((na, nlp), g1)"
    by (metis prod.exhaust)
  with assms(3) have n: "length nlp = B"
    by simp
  from assms(1) obtain q1 q2 qmin where
    q: "CriticQ_call (qf1_target ag) next_states na = Inr q1"
      "CriticQ_call (qf2_target ag) next_states na = Inr q2"
      "bcast f32_min (map fl q1) (map fl q2) = Inr qmin"
      "bcast f32_sub qmin (map (\<lambda>l. f32_mul (fl (alpha ag)) (fl l)) nlp) = Inr soft"
    by (auto simp: soft_next_q_f32_def act ebind_eq_Inr)
  have "length q1 = B" "length q2 = B"
    using CriticQ_call_length [OF q(1) assms(2)] CriticQ_call_length [OF q(2) assms(2)]
    by simp_all
  with q(3,4) n show ?thesis
    by (auto simp: bcast_same)
qed

lemmas f32_run_defs = train_target_f32_def target_q_f32_def soft_next_q_f32_def f32_min_def
  f32_sub_def fl_def f32_overflow_def

section \<open>The shape contract of the training step\<close>

text \<open>
  Claim C5. The training step asserts that \<open>dones\<close> and \<open>rewards\<close> have rank 2: if either
  has another rank the step ends with the assertion failure. If both have shape
  \<open>(B, 1)\<close>, both are squeezed to rank 1 with the same entries, and the rest of the step
  runs on the squeezed values. A rank-2 argument whose second extent is not 1 passes
  the assertions and fails in the squeeze, with the framework's shape error.
\<close>

theorem train_body_rank_contract:
  "(length (shape rewards) \<noteq> 2 \<or> length (shape dones) \<noteq> 2 \<longrightarrow>
      train_body gradient ag states actions next_states rewards dones weights = Inl AssertionError) \<and>
   (shape rewards = [B, 1] \<and> shape dones = [B', 1] \<longrightarrow>
      tf_squeeze_axis1 rewards = Inr (Tensor [B] (flat rewards)) \<and>
      tf_squeeze_axis1 dones = Inr (Tensor [B'] (flat dones)) \<and>
      train_body gradient ag states actions next_states rewards dones weights =
        train_core gradient ag states actions next_states (flat rewards) (flat dones)) \<and>
   (length (shape rewards) = 2 \<and> length (shape dones) = 2 \<and>
      (shape rewards ! 1 \<noteq> 1 \<or> shape dones ! 1 \<noteq> 1) \<longrightarrow>
      train_body gradient ag states actions next_states rewards dones weights = Inl InvalidArgumentError)"
  by (auto simp: train_body_def tf_squeeze_axis1_def ebind_def split: list.splits sum.splits)

theorem train_body_rank_contract_witness:
  "train_body ex_gradient (ex_agent False) ex_states ex_actions ex_next_states
      (Tensor [2] [1, 0]) ex_dones ex_dones = Inl AssertionError \<and>
   train_body ex_gradient (ex_agent False) ex_states ex_actions ex_next_states
      ex_rewards (Tensor [2, 1, 1] [0, 1]) ex_dones = Inl AssertionError \<and>
   tf_squeeze_axis1 ex_rewards = Inr (Tensor [2] [1, 0]) \<and>
   tf_squeeze_axis1 ex_dones = Inr (Tensor [2] [0, 1]) \<and>
   train_body ex_gradient (ex_agent False) ex_states ex_actions ex_next_states
      ex_rewards ex_dones ex_dones =
     train_core ex_gradient (ex_agent False) ex_states ex_actions ex_next_states [1, 0] [0, 1] \<and>
   train_body ex_gradient (ex_agent False) ex_states ex_actions ex_next_states
      (Tensor [2, 2] [1, 0, 0, 0]) ex_dones ex_dones = Inl InvalidArgumentError"
  using train_body_rank_contract [where rewards = "Tensor [2] [1, 0]" and dones = ex_dones
      and gradient = ex_gradient and ag = "ex_agent False" and states = ex_states
      and actions = ex_actions and next_states = ex_next_states and weights = ex_dones]
    train_body_rank_contract [where rewards = ex_rewards and dones = "Tensor [2, 1, 1] [0, 1]"
      and gradient = ex_gradient and ag = "ex_agent False" and states = ex_states
      and actions = ex_actions and next_states = ex_next_states and weights = ex_dones]
    train_body_rank_contract [where rewards = ex_rewards and dones = ex_dones and B = 2 and B' = 2
      and gradient = ex_gradient and ag = "ex_agent False" and states = ex_states
      and actions = ex_actions and next_states = ex_next_states and weights = ex_dones]
    train_body_rank_contract [where rewards = "Tensor [2, 2] [1, 0, 0, 0]" and dones = ex_dones
      and gradient = ex_gradient and ag = "ex_agent False" and states = ex_states
      and actions = ex_actions and next_states = ex_next_states and weights = ex_dones]
  by (simp add: ex_rewards_def ex_dones_def)

section \<open>The importance weights\<close>

text \<open>
  Claim C10. The \<open>weights\<close> argument has no effect: two calls of the training step that
  differ only in \<open>weights\<close> (given, or absent and defaulted to all ones) return the same
  values, write the same summaries and leave the same agent. This holds for the body
  and for \<open>train\<close>.
\<close>

theorem weights_unused:
  "train_body gradient ag states actions next_states rewards dones w =
     train_body gradient ag states actions next_states rewards dones w' \<and>
   train gradient ag states actions next_states rewards dones wo =
     train gradient ag states actions next_states rewards dones wo'"
  by (simp add: train_def train_body_def)

section \<open>The critic's regression target and loss\<close>

text \<open>
  Claim C1. For a batch of \<open>B\<close> transitions, a training step that returns has computed,
  for every transition \<open>i\<close>, the target
  \<open>rewards i + (1 - dones i) * discount * (min (Q1_target i) (Q2_target i) - alpha * next_logp i)\<close>,
  where both target critics are evaluated on the next states and on the actions that the
  actor sampled for the next states in this step, and \<open>next_logp\<close> are the
  log-probabilities of that sample. The returned target is this value. The critic loss
  is the mean squared error of \<open>current_q1\<close> against the target plus that of
  \<open>current_q2\<close>; it is the value at the current critic variables of the function that
  is differentiated, and for every other value of the critic variables that function
  measures the error against the same, fixed target: no gradient flows through the
  target.
\<close>

theorem critic_target_and_loss:
  assumes ok: "train_body gradient ag states actions next_states rewards dones weights = Inr (out, ag')"
    and r: "shape rewards = [B, 1]" "length (flat rewards) = B"
    and d: "shape dones = [B, 1]" "length (flat dones) = B"
    and st: "shape states = [B, ds]" "shape next_states = [B, ds]"
    and act: "call_actor (actor ag) (rng ag) False next_states = ((next_actions, next_logp), g1)"
    and nlp: "length next_logp = B"
  shows "\<exists>t q1_target q2_target.
      taped states actions next_states rewards dones ag = Inr t \<and>
      CriticQ_call (qf1_target ag) next_states next_actions = Inr q1_target \<and>
      CriticQ_call (qf2_target ag) next_states next_actions = Inr q2_target \<and>
      CriticQ_call (qf1 ag) states actions = Inr (tape_current_q1 t) \<and>
      CriticQ_call (qf2 ag) states actions = Inr (tape_current_q2 t) \<and>
      fst out = tape_target_q t \<and>
      length (tape_target_q t) = B \<and>
      (\<forall>i<B. tape_target_q t ! i =
         flat rewards ! i + (1 - flat dones ! i) * discount ag *
           (min (q1_target ! i) (q2_target ! i) - alpha ag * next_logp ! i)) \<and>
      tape_td_loss_q t =
        mse (tape_target_q t) (tape_current_q1 t) + mse (tape_target_q t) (tape_current_q2 t) \<and>
      td_loss_q_at (taped states actions next_states rewards dones) ag
        (net_weights (qf1 ag) @ net_weights (qf2 ag)) = Inr (tape_td_loss_q t) \<and>
      (\<forall>ws t'. taped states actions next_states rewards dones (with_critic_variables ag ws) = Inr t' \<longrightarrow>
         tape_target_q t' = tape_target_q t \<and>
         tape_td_loss_q t' =
           mse (tape_target_q t) (tape_current_q1 t') + mse (tape_target_q t) (tape_current_q2 t'))"
proof -
  from train_body_inv [OF ok] obtain t where
    t: "taped states actions next_states rewards dones ag = Inr t" and
    out: "fst out = tape_target_q t"
    by auto
  from taped_target [OF t r(2) d(2) st(2) act nlp] obtain q1t q2t where
    tgt: "CriticQ_call (qf1_target ag) next_states next_actions = Inr q1t"
      "CriticQ_call (qf2_target ag) next_states next_actions = Inr q2t"
      "length (tape_target_q t) = B"
      "\<forall>i<B. tape_target_q t ! i =
         flat rewards ! i + (1 - flat dones ! i) * discount ag *
           (min (q1t ! i) (q2t ! i) - alpha ag * next_logp ! i)"
    by blast
  note loss = taped_critic_loss [OF t st(1) tgt(3)]
  have at: "td_loss_q_at (taped states actions next_states rewards dones) ag
        (net_weights (qf1 ag) @ net_weights (qf2 ag)) = Inr (tape_td_loss_q t)"
    by (simp add: td_loss_q_at_def with_critic_variables_current t)
  have fixed: "tape_target_q t' = tape_target_q t \<and>
         tape_td_loss_q t' =
           mse (tape_target_q t) (tape_current_q1 t') + mse (tape_target_q t) (tape_current_q2 t')"
    if t': "taped states actions next_states rewards dones (with_critic_variables ag ws) = Inr t'"
    for ws t'
  proof -
    have eq: "tape_target_q t' = tape_target_q t"
      by (rule taped_target_fixed [OF t t'])
    with tgt(3) have "length (tape_target_q t') = B"
      by simp
    from taped_critic_loss [OF t' st(1) this] eq show ?thesis
      by simp
  qed
  from t tgt loss at out fixed show ?thesis
    by blast
qed

theorem critic_target_and_loss_witness:
  "\<exists>t out ag'.
     train_body ex_gradient (ex_agent False) ex_states ex_actions ex_next_states
       ex_rewards ex_dones ex_dones = Inr (out, ag') \<and>
     taped ex_states ex_actions ex_next_states ex_rewards ex_dones (ex_agent False) = Inr t \<and>
     fst out = [9 / 4, 0] \<and>
     tape_target_q t = [9 / 4, 0] \<and>
     tape_current_q1 t = [1, 3] \<and>
     tape_td_loss_q t = mse [9 / 4, 0] [1, 3] + mse [9 / 4, 0] (tape_current_q2 t)"
proof -
  obtain out ag' where ok: "train_body ex_gradient (ex_agent False) ex_states ex_actions
      ex_next_states ex_rewards ex_dones ex_dones = Inr (out, ag')"
    using ex_step by (auto simp: map_sum_def split: sum.splits)
  with ex_step have o: "fst out = [9 / 4, 0]" "fst (snd (snd out)) = [1, 3]"
    by (simp_all add: observe_def)
  from critic_target_and_loss [OF ok _ _ _ _ _ _ ex_actor_next, of 2 1]
  obtain t where
    "taped ex_states ex_actions ex_next_states ex_rewards ex_dones (ex_agent False) = Inr t"
    "fst out = tape_target_q t"
    "tape_td_loss_q t =
        mse (tape_target_q t) (tape_current_q1 t) + mse (tape_target_q t) (tape_current_q2 t)"
    by (auto simp: ex_defs)
  moreover from train_body_inv [OF ok] this(1) have "fst (snd (snd out)) = tape_current_q1 t"
    by auto
  ultimately show ?thesis
    using ok o by (intro exI [of _ t] exI [of _ out] exI [of _ ag']) simp
qed


section \<open>Terminal transitions\<close>

text \<open>
  Claim C6, as amended. For a batch of \<open>B\<close> transitions in which every entry of \<open>dones\<close>
  is 1, with rewards and discount in the finite \<^verbatim>\<open>float32\<close> range, the regression target
  that the training step computes equals the reward at every transition whose soft next
  value, \<open>min (Q1_target, Q2_target) - alpha * next_logp\<close>, is finite, and is NaN at every
  transition where that value is an infinity or NaN. So the target equals \<open>rewards\<close>
  exactly when the soft next values are finite throughout the batch.
\<close>

theorem terminal_masking_finite:
  assumes tq: "train_target_f32 ag states actions next_states rewards dones = Inr target_q"
    and r: "shape rewards = [B, 1]" "length (flat rewards) = B"
    and d: "shape dones = [B, 1]" "length (flat dones) = B"
    and ns: "shape next_states = [B, ds]"
    and nlp: "length (snd (fst (call_actor (actor ag) (rng ag) False next_states))) = B"
    and all1: "list_all (\<lambda>d. d = 1) (flat dones)"
    and rr: "list_all in_range (flat rewards)"
    and dr: "in_range (discount ag)"
  shows "\<exists>soft.
      soft_next_q_f32 ag next_states = Inr soft \<and> length soft = B \<and> length target_q = B \<and>
      (\<forall>i<B. target_q ! i = (if is_finite (soft ! i) then Finite (flat rewards ! i) else NaN)) \<and>
      (list_all is_finite soft \<longrightarrow> target_q = map Finite (flat rewards))"
proof -
  from tq have "target_q_f32 ag next_states (flat rewards) (flat dones) = Inr target_q"
    by (auto simp: train_target_f32_def ebind_eq_Inr dest!: squeeze_flat split: if_splits)
  then obtain soft boot where
    soft: "soft_next_q_f32 ag next_states = Inr soft" and
    boot: "bcast f32_mul
        (map (\<lambda>n. f32_mul n (fl (discount ag))) (map (\<lambda>d. f32_sub (Finite 1) (fl d)) (flat dones)))
        soft = Inr boot" and
    tgt: "bcast f32_add (map fl (flat rewards)) boot = Inr target_q"
    by (auto simp: target_q_f32_def ebind_eq_Inr Let_def)
  have ls: "length soft = B"
    by (rule soft_next_q_f32_length [OF soft ns nlp])
  have mask: "map (\<lambda>n. f32_mul n (fl (discount ag)))
      (map (\<lambda>d. f32_sub (Finite 1) (fl d)) (flat dones)) = replicate B (Finite 0)"
  proof (rule nth_equalityI)
    show "length (map (\<lambda>n. f32_mul n (fl (discount ag)))
        (map (\<lambda>d. f32_sub (Finite 1) (fl d)) (flat dones))) = length (replicate B (Finite 0))"
      by (simp add: d(2))
  next
    fix i
    assume "i < length (map (\<lambda>n. f32_mul n (fl (discount ag)))
        (map (\<lambda>d. f32_sub (Finite 1) (fl d)) (flat dones)))"
    then have i: "i < B"
      by (simp add: d(2))
    with all1 d(2) have "flat dones ! i = 1"
      by (simp add: list_all_length)
    with i d(2) dr show "map (\<lambda>n. f32_mul n (fl (discount ag)))
        (map (\<lambda>d. f32_sub (Finite 1) (fl d)) (flat dones)) ! i = replicate B (Finite 0) ! i"
      by (simp add: f32_sub_def fl_in_range)
  qed
  from boot ls have b: "boot = map (\<lambda>s. if is_finite s then Finite 0 else NaN) soft"
    unfolding mask
    by (auto simp: bcast_same f32_mul_zero intro!: nth_equalityI)
  from tgt b ls r(2) have t: "target_q = map2 f32_add (map fl (flat rewards))
      (map (\<lambda>s. if is_finite s then Finite 0 else NaN) soft)"
    by (simp add: bcast_same)
  have len: "length target_q = B"
    using t ls r(2) by simp
  have each: "target_q ! i = (if is_finite (soft ! i) then Finite (flat rewards ! i) else NaN)"
    if i: "i < B" for i
  proof -
    from rr i r(2) have "in_range (flat rewards ! i)"
      by (simp add: list_all_length)
    with i ls r(2) show ?thesis
      unfolding t by (simp add: fl_in_range)
  qed
  have "target_q = map Finite (flat rewards)" if "list_all is_finite soft"
    using that each len ls r(2)
    by (auto simp: list_all_length intro!: nth_equalityI)
  with soft ls len each show ?thesis
    by blast
qed

theorem terminal_masking_finite_witness:
  "train_target_f32 (ex_agent False) ex_states ex_actions ex_next_states ex_rewards ex_all_done =
     Inr [Finite 1, Finite 0] \<and>
   soft_next_q_f32 (ex_agent False) ex_next_states = Inr [Finite (5 / 2), Finite (7 / 2)] \<and>
   flat ex_rewards = [1, 0] \<and> flat ex_all_done = [1, 1]"
proof -
  have soft: "soft_next_q_f32 (ex_agent False) ex_next_states = Inr [Finite (5 / 2), Finite (7 / 2)]"
    by (simp add: ex_defs run_defs f32_run_defs)
  have "\<exists>tq. train_target_f32 (ex_agent False) ex_states ex_actions ex_next_states
      ex_rewards ex_all_done = Inr tq"
    by (simp add: ex_defs run_defs f32_run_defs)
  then obtain tq where tq: "train_target_f32 (ex_agent False) ex_states ex_actions ex_next_states
      ex_rewards ex_all_done = Inr tq"
    by blast
  have "\<exists>soft. soft_next_q_f32 (ex_agent False) ex_next_states = Inr soft \<and> length soft = 2 \<and>
      length tq = 2 \<and>
      (\<forall>i<2. tq ! i = (if is_finite (soft ! i) then Finite (flat ex_rewards ! i) else NaN)) \<and>
      (list_all is_finite soft \<longrightarrow> tq = map Finite (flat ex_rewards))"
    by (rule terminal_masking_finite [OF tq, of 2 1])
      (simp_all add: ex_actor_next, simp_all add: ex_defs in_range_def f32_overflow_def)
  with soft have "tq = map Finite (flat ex_rewards)"
    by auto
  with tq soft show ?thesis
    by (simp add: ex_rewards_def ex_all_done_def)
qed

text \<open>
  As the claim was stated, for every batch with all \<open>dones\<close> equal to 1, it fails: with
  finite next states on which both target critics overflow, the mask \<open>0 * infinity\<close> is
  NaN and the target is NaN at both transitions, not the rewards.
\<close>

theorem terminal_masking_counterexample:
  "train_target_f32 ex_agent_steep ex_states ex_actions ex_far_next_states ex_rewards ex_all_done =
     Inr [NaN, NaN] \<and>
   flat ex_all_done = [1, 1] \<and> flat ex_rewards = [1, 0] \<and>
   [NaN, NaN] \<noteq> map Finite (flat ex_rewards) \<and>
   flat ex_far_next_states = [3 * 10 ^ 38, 3 * 10 ^ 38] \<and> in_range (3 * 10 ^ 38)"
  by (simp add: ex_defs run_defs f32_run_defs ex_agent_steep_def ex_keras_steep_def
      ex_far_next_states_def in_range_def)

section \<open>The actor's loss\<close>

text \<open>
  Claim C2. In a returning training step on a batch of \<open>B\<close> transitions the policy loss
  is the mean over the batch of \<open>alpha * logp' i - min (Q1 i) (Q2 i)\<close>, where
  \<open>(actions', logp')\<close> is the actor's sample on \<open>states\<close>, drawn with the generator state
  that the sample for the bootstrap target left behind, and \<open>Q1\<close>, \<open>Q2\<close> are the live
  critics \<open>qf1\<close> and \<open>qf2\<close> on \<open>(states, actions')\<close>. This loss is returned, and it is the
  value at the actor's current variables of the function that is differentiated.
\<close>

theorem actor_loss:
  assumes ok: "train_body gradient ag states actions next_states rewards dones weights = Inr (out, ag')"
    and st: "shape states = [B, ds]"
    and act: "call_actor (actor ag) (rng ag) False next_states = ((next_actions, next_logp), g1)"
    and act': "call_actor (actor ag) g1 False states = ((actions', logp'), g2)"
    and lp: "length logp' = B"
  shows "\<exists>t q1 q2.
      taped states actions next_states rewards dones ag = Inr t \<and>
      CriticQ_call (qf1 ag) states actions' = Inr q1 \<and>
      CriticQ_call (qf2 ag) states actions' = Inr q2 \<and>
      0 < B \<and>
      tape_logp t = logp' \<and>
      tape_policy_loss t =
        (\<Sum>i = 0..<B. alpha ag * logp' ! i - min (q1 ! i) (q2 ! i)) / real B \<and>
      fst (snd out) = tape_policy_loss t \<and>
      policy_loss_at (taped states actions next_states rewards dones) ag
        (actor_weights (actor ag)) = Inr (tape_policy_loss t) \<and>
      rng ag' = g2"
proof -
  from train_body_inv [OF ok] obtain t where
    t: "taped states actions next_states rewards dones ag = Inr t" and
    out: "fst (snd out) = tape_policy_loss t" and
    st': "alpha_step gradient (taped states actions next_states rewards dones) ag
       (actor_step gradient (taped states actions next_states rewards dones) ag
         (target_step
           (critic_step gradient (taped states actions next_states rewards dones) ag
              (ag\<lparr>rng := tape_rng t\<rparr>)))) = Inr ag'"
    by auto
  from tape_forward_inv [OF t [unfolded taped_def] act act']
  obtain q1p q2p pmin pterms where
    p: "tape_logp t = logp'"
      "CriticQ_call (qf1 ag) states actions' = Inr q1p"
      "CriticQ_call (qf2 ag) states actions' = Inr q2p"
      "bcast min q1p q2p = Inr pmin"
      "bcast (-) (map (\<lambda>l. alpha ag * l) logp') pmin = Inr pterms"
      "reduce_mean pterms = Inr (tape_policy_loss t)"
      "tape_rng t = g2"
    by blast
  have l: "length q1p = B" "length q2p = B"
    using CriticQ_call_length [OF p(2) st] CriticQ_call_length [OF p(3) st] by simp_all
  note loss = policy_batch [OF p(4,5,6) l lp]
  have at: "policy_loss_at (taped states actions next_states rewards dones) ag
        (actor_weights (actor ag)) = Inr (tape_policy_loss t)"
    by (simp add: policy_loss_at_def with_actor_variables_def t)
  have "rng ag' = tape_rng t"
    using st'
    by (auto simp: alpha_step_def actor_step_def target_step_def critic_step_def
        with_actor_variables_def with_critic_variables_def Let_def ebind_eq_Inr
        split: if_splits prod.splits)
  with t p loss at out show ?thesis
    by auto
qed


theorem actor_loss_witness:
  "\<exists>out ag'.
     train_body ex_gradient (ex_agent False) ex_states ex_actions ex_next_states
       ex_rewards ex_dones ex_dones = Inr (out, ag') \<and>
     fst (snd out) = - (7 / 2) \<and>
     rng ag' = 2 \<and>
     policy_loss_at (taped ex_states ex_actions ex_next_states ex_rewards ex_dones)
       (ex_agent False) (actor_weights (actor (ex_agent False))) = Inr (- (7 / 2))"
proof -
  obtain out ag' where ok: "train_body ex_gradient (ex_agent False) ex_states ex_actions
      ex_next_states ex_rewards ex_dones ex_dones = Inr (out, ag')"
    using ex_step by (auto simp: map_sum_def split: sum.splits)
  with ex_step have o: "fst (snd out) = - (7 / 2)"
    by (simp add: observe_def)
  from actor_loss [OF ok _ ex_actor_next ex_actor_states, of 2 1] o ok show ?thesis
    by (auto simp: ex_states_def)
qed

section \<open>The order of the critic step and the soft update\<close>

text \<open>
  Claim C3. In a returning training step the regression target, and the critic loss
  that is differentiated, are computed with the target critics as they were before the
  step; the live critics take the optimizer's new values; and each target critic then
  becomes \<open>tau\<close> times the new live weights plus \<open>1 - tau\<close> times its old weights: the soft
  update comes after the critic's gradient step.
\<close>

theorem target_update_after_critic_step:
  assumes ok: "train_body gradient ag states actions next_states rewards dones weights = Inr (out, ag')"
  shows "\<exists>t new_values.
      taped states actions next_states rewards dones ag = Inr t \<and>
      fst out = tape_target_q t \<and>
      new_values =
        fst (apply_gradients (qf_optimizer ag)
          (zip (gradient (td_loss_q_at (taped states actions next_states rewards dones) ag)
                  (net_weights (qf1 ag) @ net_weights (qf2 ag)))
               (net_weights (qf1 ag) @ net_weights (qf2 ag)))) \<and>
      (\<forall>ws. qf1_target (with_critic_variables ag ws) = qf1_target ag \<and>
            qf2_target (with_critic_variables ag ws) = qf2_target ag) \<and>
      net_weights (qf1 ag') = take (length (net_weights (qf1 ag))) new_values \<and>
      net_weights (qf2 ag') = drop (length (net_weights (qf1 ag))) new_values \<and>
      net_weights (qf1_target ag') =
        update_target_variables (net_weights (qf1_target ag)) (net_weights (qf1 ag')) (tau ag) \<and>
      net_weights (qf2_target ag') =
        update_target_variables (net_weights (qf2_target ag)) (net_weights (qf2 ag')) (tau ag)"
proof -
  let ?tape = "taped states actions next_states rewards dones"
  from train_body_inv [OF ok] obtain t where
    t: "?tape ag = Inr t" and
    out: "fst out = tape_target_q t" and
    st: "alpha_step gradient ?tape ag
       (actor_step gradient ?tape ag
         (target_step (critic_step gradient ?tape ag (ag\<lparr>rng := tape_rng t\<rparr>)))) = Inr ag'"
    by auto
  let ?c = "critic_step gradient ?tape ag (ag\<lparr>rng := tape_rng t\<rparr>)"
  let ?new = "fst (apply_gradients (qf_optimizer ag)
          (zip (gradient (td_loss_q_at ?tape ag) (net_weights (qf1 ag) @ net_weights (qf2 ag)))
               (net_weights (qf1 ag) @ net_weights (qf2 ag))))"
  have c: "net_weights (qf1 ?c) = take (length (net_weights (qf1 ag))) ?new"
    "net_weights (qf2 ?c) = drop (length (net_weights (qf1 ag))) ?new"
    by (simp_all add: critic_step_def with_critic_variables_def Let_def split: prod.splits)
  have live: "qf1 ag' = qf1 ?c" "qf2 ag' = qf2 ?c"
    using alpha_step_frame(1,2) [OF st] by (simp_all add: steps_frame)
  have tgt: "qf1_target ag' = qf1_target (target_step ?c)"
    "qf2_target ag' = qf2_target (target_step ?c)"
    using alpha_step_frame(3,4) [OF st] by (simp_all add: steps_frame)
  have upd: "net_weights (qf1_target (target_step ?c)) =
      update_target_variables (net_weights (qf1_target ag)) (net_weights (qf1 ?c)) (tau ag)"
    "net_weights (qf2_target (target_step ?c)) =
      update_target_variables (net_weights (qf2_target ag)) (net_weights (qf2 ?c)) (tau ag)"
    by (simp_all add: target_step_def steps_frame)
  have pre: "\<forall>ws. qf1_target (with_critic_variables ag ws) = qf1_target ag \<and>
            qf2_target (with_critic_variables ag ws) = qf2_target ag"
    by (simp add: with_critic_variables_def Let_def)
  from t out c live tgt upd pre show ?thesis
    by simp
qed

theorem target_update_after_critic_step_witness:
  "\<exists>out ag'.
     train_body ex_gradient (ex_agent False) ex_states ex_actions ex_next_states
       ex_rewards ex_dones ex_dones = Inr (out, ag') \<and>
     net_weights (qf1_target (ex_agent False)) = [[1, 1]] \<and>
     net_weights (qf1 (ex_agent False)) = [[1, 1]] \<and>
     net_weights (qf1 ag') = [[- (63 / 2), - (63 / 2)]] \<and>
     net_weights (qf1_target ag') =
       update_target_variables [[1, 1]] [[- (63 / 2), - (63 / 2)]] (1 / 2) \<and>
     net_weights (qf1_target ag') \<noteq> update_target_variables [[1, 1]] [[1, 1]] (1 / 2)"
proof -
  obtain out ag' where ok: "train_body ex_gradient (ex_agent False) ex_states ex_actions
      ex_next_states ex_rewards ex_dones ex_dones = Inr (out, ag')"
    using ex_step by (auto simp: map_sum_def split: sum.splits)
  with ex_step have o: "net_weights (qf1 ag') = [[- (63 / 2), - (63 / 2)]]"
    by (simp add: observe_def)
  have e: "net_weights (qf1_target (ex_agent False)) = [[1, 1]]"
    "net_weights (qf1 (ex_agent False)) = [[1, 1]]" "tau (ex_agent False) = 1 / 2"
    by (simp_all add: ex_defs update_target_variables_def)
  from target_update_after_critic_step [OF ok] have
    "net_weights (qf1_target ag') =
        update_target_variables (net_weights (qf1_target (ex_agent False)))
          (net_weights (qf1 ag')) (tau (ex_agent False))"
    by blast
  then have "net_weights (qf1_target ag') =
      update_target_variables [[1, 1]] [[- (63 / 2), - (63 / 2)]] (1 / 2)"
    unfolding e o .
  with ok o e(1,2) show ?thesis
    by (intro exI [of _ out] exI [of _ ag']) (simp add: update_target_variables_def)
qed

section \<open>The entropy temperature\<close>

text \<open>
  Claim C8. An agent built with \<open>auto_alpha\<close> holds \<open>target_alpha = - action_dim\<close>,
  \<open>log_alpha = 0\<close> and \<open>alpha = exp 0\<close>. In a returning training step of an agent with
  \<open>auto_alpha\<close> the alpha loss is \<open>- mean (log_alpha * (logp' + target_alpha))\<close>, where
  \<open>logp'\<close> are the log-probabilities of the actor's sample on \<open>states\<close>; as a function of
  \<open>log_alpha\<close> the differentiated loss has \<open>logp' + target_alpha\<close> as a fixed coefficient.
  After the step \<open>log_alpha\<close> is the value the optimizer gives it and \<open>alpha\<close> is
  \<open>exp log_alpha\<close>; \<open>target_alpha\<close> is as before.
\<close>

theorem auto_alpha_step:
  "target_alpha (SAC_init keras name disc seed state_shape action_dim lr lr_alpha tau0 alpha0 True) =
     Some (- int action_dim) \<and>
   log_alpha (SAC_init keras name disc seed state_shape action_dim lr lr_alpha tau0 alpha0 True) =
     Some 0 \<and>
   alpha (SAC_init keras name disc seed state_shape action_dim lr lr_alpha tau0 alpha0 True) = exp 0 \<and>
   (auto_alpha ag \<and>
    train_body gradient ag states actions next_states rewards dones weights = Inr (out, ag') \<longrightarrow>
    (\<exists>t la ta opt la' next_actions next_logp g1 actions' g2.
       log_alpha ag = Some la \<and> target_alpha ag = Some ta \<and> alpha_optimizer ag = Some opt \<and>
       taped states actions next_states rewards dones ag = Inr t \<and>
       call_actor (actor ag) (rng ag) False next_states = ((next_actions, next_logp), g1) \<and>
       call_actor (actor ag) g1 False states = ((actions', tape_logp t), g2) \<and>
       tape_alpha_loss t =
         Some (- (sum_list (map (\<lambda>l. la * (l + real_of_int ta)) (tape_logp t)) /
                   real (length (tape_logp t)))) \<and>
       (\<forall>x. alpha_loss_at (taped states actions next_states rewards dones) ag [[x]] =
          Inr (- (sum_list (map (\<lambda>l. x * (l + real_of_int ta)) (tape_logp t)) /
                   real (length (tape_logp t))))) \<and>
       la' = scalar_value
               (fst (apply_gradients opt
                  (zip (gradient (alpha_loss_at (taped states actions next_states rewards dones) ag)
                          [[la]]) [[la]]))) la \<and>
       log_alpha ag' = Some la' \<and> alpha ag' = exp la' \<and> target_alpha ag' = Some ta))"
proof -
  let ?tape = "taped states actions next_states rewards dones"
  have step: "\<exists>t la ta opt la' next_actions next_logp g1 actions' g2.
       log_alpha ag = Some la \<and> target_alpha ag = Some ta \<and> alpha_optimizer ag = Some opt \<and>
       ?tape ag = Inr t \<and>
       call_actor (actor ag) (rng ag) False next_states = ((next_actions, next_logp), g1) \<and>
       call_actor (actor ag) g1 False states = ((actions', tape_logp t), g2) \<and>
       tape_alpha_loss t =
         Some (- (sum_list (map (\<lambda>l. la * (l + real_of_int ta)) (tape_logp t)) /
                   real (length (tape_logp t)))) \<and>
       (\<forall>x. alpha_loss_at ?tape ag [[x]] =
          Inr (- (sum_list (map (\<lambda>l. x * (l + real_of_int ta)) (tape_logp t)) /
                   real (length (tape_logp t))))) \<and>
       la' = scalar_value
               (fst (apply_gradients opt (zip (gradient (alpha_loss_at ?tape ag) [[la]]) [[la]]))) la \<and>
       log_alpha ag' = Some la' \<and> alpha ag' = exp la' \<and> target_alpha ag' = Some ta"
    if auto: "auto_alpha ag"
      and ok: "train_body gradient ag states actions next_states rewards dones weights = Inr (out, ag')"
  proof -
    from train_body_inv [OF ok] obtain t where
      t: "?tape ag = Inr t" and
      st: "alpha_step gradient ?tape ag
         (actor_step gradient ?tape ag
           (target_step (critic_step gradient ?tape ag (ag\<lparr>rng := tape_rng t\<rparr>)))) = Inr ag'"
      by auto
    obtain na nlp g1 where act: "call_actor (actor ag) (rng ag) False next_states = ((na, nlp), g1)"
      by (metis prod.exhaust)
    obtain sa lp g2 where act2: "call_actor (actor ag) g1 False states = ((sa, lp), g2)"
      by (metis prod.exhaust)
    from tape_forward_inv [OF t [unfolded taped_def] act act2] have lp: "tape_logp t = lp"
      by blast
    from tape_forward_log_alpha [OF t [unfolded taped_def] auto] obtain la ta where
      la: "log_alpha ag = Some la" and ta: "target_alpha ag = Some ta" and
      at: "\<And>x. ?tape (ag\<lparr>log_alpha := Some x\<rparr>) =
        Inr (t\<lparr>tape_alpha_loss :=
               Some (- (sum_list (map (\<lambda>l. x * (l + real_of_int ta)) (tape_logp t)) /
                         real (length (tape_logp t))))\<rparr>)"
      unfolding taped_def by blast
    have loss_at: "alpha_loss_at ?tape ag [[x]] =
          Inr (- (sum_list (map (\<lambda>l. x * (l + real_of_int ta)) (tape_logp t)) /
                   real (length (tape_logp t))))" for x
      by (simp add: alpha_loss_at_def with_log_alpha_def la scalar_value_def at get_attr_def)
    have "ag\<lparr>log_alpha := Some la\<rparr> = ag"
      using la by simp
    with at [of la] t have cur: "tape_alpha_loss t =
         Some (- (sum_list (map (\<lambda>l. la * (l + real_of_int ta)) (tape_logp t)) /
                   real (length (tape_logp t))))"
      by (cases t) auto
    let ?pre = "actor_step gradient ?tape ag
           (target_step (critic_step gradient ?tape ag (ag\<lparr>rng := tape_rng t\<rparr>)))"
    have pre: "auto_alpha ?pre" "log_alpha ?pre = Some la" "target_alpha ?pre = Some ta"
      "alpha_optimizer ?pre = alpha_optimizer ag"
      using auto la ta by (simp_all add: steps_frame)
    from st pre obtain opt where opt: "alpha_optimizer ag = Some opt" and
      ag': "ag' = ?pre\<lparr> log_alpha := Some (scalar_value
               (fst (apply_gradients opt (zip (gradient (alpha_loss_at ?tape ag) [[la]]) [[la]]))) la),
             alpha_optimizer := Some (snd (apply_gradients opt
                 (zip (gradient (alpha_loss_at ?tape ag) [[la]]) [[la]]))),
             alpha := exp (scalar_value
               (fst (apply_gradients opt (zip (gradient (alpha_loss_at ?tape ag) [[la]]) [[la]]))) la) \<rparr>"
      by (auto simp: alpha_step_def ebind_eq_Inr get_attr_def Let_def split_beta
          split: option.splits)
    from ag' pre(3) have fin: "log_alpha ag' = Some (scalar_value
               (fst (apply_gradients opt (zip (gradient (alpha_loss_at ?tape ag) [[la]]) [[la]]))) la)"
      "alpha ag' = exp (scalar_value
               (fst (apply_gradients opt (zip (gradient (alpha_loss_at ?tape ag) [[la]]) [[la]]))) la)"
      "target_alpha ag' = Some ta"
      by simp_all
    from la ta opt t act act2 [folded lp] cur loss_at fin show ?thesis
      by blast
  qed
  have init: "target_alpha (SAC_init keras name disc seed state_shape action_dim lr lr_alpha tau0 alpha0 True) =
     Some (- int action_dim)"
   "log_alpha (SAC_init keras name disc seed state_shape action_dim lr lr_alpha tau0 alpha0 True) =
     Some 0"
   "alpha (SAC_init keras name disc seed state_shape action_dim lr lr_alpha tau0 alpha0 True) = exp 0"
    by (simp_all add: SAC_init_def)
  from init step show ?thesis
    by blast
qed

theorem auto_alpha_step_witness:
  "target_alpha (ex_agent True) = Some (- 1) \<and>
   auto_alpha (ex_agent True) \<and>
   (\<exists>out ag'.
     train_body ex_gradient (ex_agent True) ex_states ex_actions ex_next_states
       ex_rewards ex_dones ex_dones = Inr (out, ag') \<and>
     alpha_loss_at (taped ex_states ex_actions ex_next_states ex_rewards ex_dones)
       (ex_agent True) [[0]] = Inr 0 \<and>
     alpha_loss_at (taped ex_states ex_actions ex_next_states ex_rewards ex_dones)
       (ex_agent True) [[1]] = Inr 3 \<and>
     log_alpha ag' = Some (- 3) \<and> alpha ag' = exp (- 3))"
proof -
  obtain out ag' where ok: "train_body ex_gradient (ex_agent True) ex_states ex_actions
      ex_next_states ex_rewards ex_dones ex_dones = Inr (out, ag')"
    using ex_step_auto by (auto simp: map_sum_def split: sum.splits)
  with ex_step_auto have o: "log_alpha ag' = Some (- 3)"
    by (simp add: observe_def)
  have a: "auto_alpha (ex_agent True)" "target_alpha (ex_agent True) = Some (- 1)"
    by (simp_all add: ex_defs)
  have "auto_alpha (ex_agent True) \<and>
      train_body ex_gradient (ex_agent True) ex_states ex_actions ex_next_states
        ex_rewards ex_dones ex_dones = Inr (out, ag')"
    using a(1) ok by simp
  with auto_alpha_step [of ex_keras "''SAC''" "1 / 2" 0 "[1]" 1 1 1 "1 / 2" "1 / 2"
      "ex_agent True" ex_gradient ex_states ex_actions ex_next_states ex_rewards ex_dones
      ex_dones out ag']
  have "\<exists>t la ta opt la' na nlp g1 a2 g2.
       log_alpha (ex_agent True) = Some la \<and> target_alpha (ex_agent True) = Some ta \<and>
       alpha_optimizer (ex_agent True) = Some opt \<and>
       taped ex_states ex_actions ex_next_states ex_rewards ex_dones (ex_agent True) = Inr t \<and>
       call_actor (actor (ex_agent True)) (rng (ex_agent True)) False ex_next_states =
         ((na, nlp), g1) \<and>
       call_actor (actor (ex_agent True)) g1 False ex_states = ((a2, tape_logp t), g2) \<and>
       tape_alpha_loss t =
         Some (- (sum_list (map (\<lambda>l. la * (l + real_of_int ta)) (tape_logp t)) /
                   real (length (tape_logp t)))) \<and>
       (\<forall>x. alpha_loss_at (taped ex_states ex_actions ex_next_states ex_rewards ex_dones)
          (ex_agent True) [[x]] =
          Inr (- (sum_list (map (\<lambda>l. x * (l + real_of_int ta)) (tape_logp t)) /
                   real (length (tape_logp t))))) \<and>
       la' = scalar_value
               (fst (apply_gradients opt
                  (zip (ex_gradient
                          (alpha_loss_at (taped ex_states ex_actions ex_next_states ex_rewards ex_dones)
                             (ex_agent True)) [[la]]) [[la]]))) la \<and>
       log_alpha ag' = Some la' \<and> alpha ag' = exp la' \<and> target_alpha ag' = Some ta"
    by (elim conjE impE) (intro conjI; assumption)
  then show ?thesis
  proof (elim exE conjE)
    fix t la ta opt la' na nlp g1 a2 g2
    assume ta: "target_alpha (ex_agent True) = Some ta"
      and act: "call_actor (actor (ex_agent True)) (rng (ex_agent True)) False ex_next_states =
         ((na, nlp), g1)"
      and act2: "call_actor (actor (ex_agent True)) g1 False ex_states = ((a2, tape_logp t), g2)"
      and at: "\<forall>x. alpha_loss_at (taped ex_states ex_actions ex_next_states ex_rewards ex_dones)
          (ex_agent True) [[x]] =
          Inr (- (sum_list (map (\<lambda>l. x * (l + real_of_int ta)) (tape_logp t)) /
                   real (length (tape_logp t))))"
      and fin: "log_alpha ag' = Some la'" "alpha ag' = exp la'"
    from act have g1: "g1 = 1"
      unfolding ex_actor_next by simp
    from act2 have lp: "tape_logp t = [- 2, - 2]"
      unfolding g1 ex_actor_states by simp
    from ta a(2) have ta': "ta = - 1"
      by simp
    from at have "alpha_loss_at (taped ex_states ex_actions ex_next_states ex_rewards ex_dones)
         (ex_agent True) [[0]] = Inr 0"
      "alpha_loss_at (taped ex_states ex_actions ex_next_states ex_rewards ex_dones)
         (ex_agent True) [[1]] = Inr 3"
      by (simp_all add: lp ta')
    with ok o fin a show ?thesis
      by (intro conjI exI [of _ out] exI [of _ ag']) simp_all
  qed
qed

section \<open>A fixed entropy temperature\<close>

text \<open>
  Claim C9. For an agent without \<open>auto_alpha\<close>, a call of \<open>train\<close> that returns leaves
  \<open>alpha\<close> at the value it had, and leaves \<open>auto_alpha\<close> unset, so the same holds for
  every later call; the networks' weights do change.
\<close>

theorem alpha_fixed_without_auto_alpha:
  assumes "\<not> auto_alpha ag"
    and "train gradient ag states actions next_states rewards dones weights =
      Inr (td_errors, summaries, ag')"
  shows "alpha ag' = alpha ag \<and> \<not> auto_alpha ag'"
proof -
  from train_inv [OF assms(2)] obtain out where
    "train_body gradient ag states actions next_states rewards dones
        (case weights of None \<Rightarrow> ones_like rewards | Some w \<Rightarrow> w) = Inr (out, ag')"
    by blast
  from train_body_alpha_frame [OF this assms(1)] assms(1) show ?thesis
    by simp
qed

theorem alpha_fixed_without_auto_alpha_witness:
  "\<not> auto_alpha (ex_agent False) \<and> alpha (ex_agent False) = 1 / 2 \<and>
   net_weights (qf1 (ex_agent False)) = [[1, 1]] \<and>
   (\<exists>td_errors summaries ag'.
      train ex_gradient (ex_agent False) ex_states ex_actions ex_next_states
        ex_rewards ex_dones None = Inr (td_errors, summaries, ag') \<and>
      alpha ag' = 1 / 2 \<and>
      net_weights (qf1 ag') = [[- (63 / 2), - (63 / 2)]])"
proof -
  have a: "\<not> auto_alpha (ex_agent False)" "alpha (ex_agent False) = 1 / 2"
    "net_weights (qf1 (ex_agent False)) = [[1, 1]]"
    by (simp_all add: ex_defs update_target_variables_def)
  obtain td s ag' where ok: "train ex_gradient (ex_agent False) ex_states ex_actions
      ex_next_states ex_rewards ex_dones None = Inr (td, s, ag')"
    using ex_train by (auto simp: map_sum_def split: sum.splits)
  with ex_train have q: "net_weights (qf1 ag') = [[- (63 / 2), - (63 / 2)]]"
    by simp
  from alpha_fixed_without_auto_alpha [OF a(1) ok] have "alpha ag' = alpha (ex_agent False)"
    by simp
  then have "alpha ag' = 1 / 2"
    unfolding a(2) .
  with a ok q show ?thesis
    by (intro conjI exI [of _ td] exI [of _ s] exI [of _ ag']) simp_all
qed

section \<open>Selecting an action for one observation\<close>

text \<open>
  Claim C7. For an observation whose rank is the agent's state rank, \<open>get_action\<close> calls
  the actor on the observation expanded to a batch of one and, when the actor answers
  with actions of shape \<open>[1, action_dim]\<close> and one log-probability, returns the action
  with shape \<open>[action_dim]\<close> and the log-probability as a scalar (a tensor of rank 0).
\<close>

theorem get_action_single_observation:
  assumes single: "length (shape state) = state_ndim ag"
    and act: "call_actor (actor ag) (rng ag) test (Tensor (1 # shape state) (flat state)) =
        ((acts, logps), g)"
    and contract: "shape acts = [1, action_dim]" "length logps = 1"
  shows "get_action ag state test =
      Inr ((Tensor [action_dim] (take action_dim (flat acts)), Tensor [] logps), ag\<lparr>rng := g\<rparr>)"
  using assms
  by (auto simp: get_action_def get_action_body_def expand_dims0_def index0_def Let_def)

theorem get_action_single_observation_witness:
  "length (shape (Tensor [1] [5])) = state_ndim (ex_agent False) \<and>
   get_action (ex_agent False) (Tensor [1] [5]) False =
     Inr ((Tensor [1] [0], Tensor [] [- 1]), (ex_agent False)\<lparr>rng := 1\<rparr>)"
proof -
  have s: "length (shape (Tensor [1] [5])) = state_ndim (ex_agent False)"
    by (simp add: ex_defs)
  have c: "call_actor (actor (ex_agent False)) (rng (ex_agent False)) False
      (Tensor (1 # shape (Tensor [1] [5])) (flat (Tensor [1] [5]))) =
        ((Tensor [1, 1] [0], [- 1]), 1)"
    by (simp add: ex_defs call_actor_def scalar_value_def)
  from get_action_single_observation [OF s c, of 1] s show ?thesis
    by simp
qed

section \<open>The TD-error query raises\<close>

text \<open>
  Claim C4 does not hold of the code. \<open>compute_td_error\<close> never returns TD errors: for
  every agent and batch it ends with an exception, and on a batch that the live critic
  accepts the exception is the \<^verbatim>\<open>AttributeError\<close> for \<^verbatim>\<open>vf_target\<close>. The training step's
  twin-Q target is never computed there.
\<close>

theorem compute_td_error_raises:
  "compute_td_error ag actions_is_tensor states actions next_states rewards dones \<noteq> Inr v \<and>
   compute_td_error (ex_agent False) False ex_states ex_actions ex_next_states
     (Tensor [2] [1, 0]) (Tensor [2] [0, 1]) = Inl (AttributeError ''vf_target'') \<and>
   compute_td_error (ex_agent False) True ex_states ex_actions ex_next_states
     (Tensor [2] [1, 0]) (Tensor [2] [0, 1]) = Inl (AttributeError ''vf_target'')"
proof -
  have "compute_td_error_body ag s a ns r d \<noteq> Inr v" for s a ns r d
    by (simp add: compute_td_error_body_def ebind_eq_Inr)
  then have "compute_td_error ag actions_is_tensor states actions next_states rewards dones \<noteq> Inr v"
    by (auto simp: compute_td_error_def ebind_eq_Inr)
  moreover have "CriticQ_call (qf1 (ex_agent False)) ex_states ex_actions = Inr [1, 3]"
    by (simp add: ex_defs run_defs)
  then have "compute_td_error (ex_agent False) b ex_states ex_actions ex_next_states
     (Tensor [2] [1, 0]) (Tensor [2] [0, 1]) = Inl (AttributeError ''vf_target'')" for b
    by (simp add: compute_td_error_def compute_td_error_body_def expand_dims1_def)
  ultimately show ?thesis
    by simp
qed

end
